theory Spec2Isabelle
  imports Complex_Main
begin

section \<open>Spot Samachar backend: one-time codes, quotas, moderation, nearest station\<close>

text \<open>
  A shallow embedding of the parts of the Express/Prisma backend that carry invariants.
  Conventions used throughout:
  \<^item> \<open>Date.now()\<close> and \<open>new Date()\<close> are clock reads; every read is an explicit argument
    (milliseconds since the epoch, an \<open>int\<close>);
  \<^item> the two module-level \<open>Map\<close>s of \<open>lib/otp-store.js\<close> are partial maps that each function
    takes and returns;
  \<^item> a database table is the list of its rows, in the order \<open>findMany\<close> reads them;
  \<^item> a thrown \<open>AppError\<close> or a rejected Prisma call is a value \<open>Inl\<close> of type \<open>error\<close>,
    returned together with the store as it stands when the exception leaves the handler
    (the handlers run their awaits in sequence, with no transaction);
  \<^item> a coordinate is the real number its double denotes; a computed distance is a
    JavaScript number, possibly NaN, and the rounded arithmetic that computes it is a
    parameter;
  \<^item> a counter column is an \<open>int\<close>, and an update that leaves the 32-bit range of the
    column is a rejected Prisma call.
\<close>

subsection \<open>Printing integers in template strings\<close>

definition digit_char :: "nat \<Rightarrow> char" where
  "digit_char d = ''0123456789'' ! (d mod 10)"

fun string_of_nat :: "nat \<Rightarrow> string" where
  "string_of_nat n =
     (if n < 10 then [digit_char n]
      else string_of_nat (n div 10) @ [digit_char (n mod 10)])"

definition string_of_int :: "int \<Rightarrow> string" where
  "string_of_int i = (if i < 0 then CHR ''-'' # string_of_nat (nat (- i)) else string_of_nat (nat i))"

subsection \<open>\<open>lib/otp-store.js\<close>: the code store\<close>

record otp_entry =
  otp :: string
  attempts :: nat
  createdAt :: int
  expiresAt :: int

type_synonym otpStore = "string \<rightharpoonup> otp_entry"

definition OTP_EXPIRY :: int where
  "OTP_EXPIRY = 5 * 60 * 1000"

definition MAX_ATTEMPTS :: nat where
  "MAX_ATTEMPTS = 3"

definition RATE_LIMIT_WINDOW :: int where
  "RATE_LIMIT_WINDOW = 60 * 60 * 1000"

definition MAX_REQUESTS_PER_HOUR :: nat where
  "MAX_REQUESTS_PER_HOUR = 5"

text \<open>
  \<open>storeOTP\<close> reads the clock twice, once for \<open>createdAt\<close> and once for \<open>expiresAt\<close>;
  \<open>now1\<close> and \<open>now2\<close> are the two readings in that order.
\<close>

definition storeOTP :: "string \<Rightarrow> string \<Rightarrow> int \<Rightarrow> int \<Rightarrow> otpStore \<Rightarrow> otpStore" where
  "storeOTP email code now1 now2 store =
     store(email \<mapsto> \<lparr>otp = code, attempts = 0, createdAt = now1, expiresAt = now2 + OTP_EXPIRY\<rparr>)"

record verify_result =
  success :: bool
  message :: string

text \<open>
  \<open>verifyOTP\<close>: \<open>stored.attempts++\<close> mutates the object held by the map, so the
  incremented entry is written back before the comparison.
\<close>

definition verifyOTP :: "string \<Rightarrow> string \<Rightarrow> int \<Rightarrow> otpStore \<Rightarrow> verify_result \<times> otpStore" where
  "verifyOTP email inputOTP now store =
     (case store email of
        None \<Rightarrow> (\<lparr>success = False, message = ''OTP not found or expired''\<rparr>, store)
      | Some stored \<Rightarrow>
          if now > expiresAt stored then
            (\<lparr>success = False, message = ''OTP expired''\<rparr>, store(email := None))
          else if attempts stored \<ge> MAX_ATTEMPTS then
            (\<lparr>success = False, message = ''Maximum attempts exceeded''\<rparr>, store(email := None))
          else
            let store1 = store(email \<mapsto> stored\<lparr>attempts := attempts stored + 1\<rparr>) in
            if otp stored \<noteq> inputOTP then
              (\<lparr>success = False, message = ''Invalid OTP''\<rparr>, store1)
            else
              (\<lparr>success = True, message = ''OTP verified successfully''\<rparr>, store1(email := None)))"

text \<open>A sequence of guesses for one address, each with its own clock reading.\<close>

fun verify_all :: "string \<Rightarrow> (string \<times> int) list \<Rightarrow> otpStore \<Rightarrow> verify_result list \<times> otpStore" where
  "verify_all email [] store = ([], store)"
| "verify_all email ((guess, now) # rest) store =
     (let (r, store1) = verifyOTP email guess now store;
          (rs, store2) = verify_all email rest store1
      in (r # rs, store2))"

subsection \<open>\<open>lib/otp-store.js\<close>: the request limiter\<close>

record rate_entry =
  count :: nat
  resetAt :: int

type_synonym rateLimitStore = "string \<rightharpoonup> rate_entry"

record rate_result =
  allowed :: bool
  rate_message :: "string option"

text \<open>The number printed in the denial message: \<open>Math.ceil((rateData.resetAt - now) / 60000)\<close>.\<close>

definition retry_minutes :: "int \<Rightarrow> int \<Rightarrow> int" where
  "retry_minutes reset now = \<lceil>real_of_int (reset - now) / 60000\<rceil>"

definition checkRateLimit :: "string \<Rightarrow> int \<Rightarrow> rateLimitStore \<Rightarrow> rate_result \<times> rateLimitStore" where
  "checkRateLimit email now store =
     (case store email of
        None \<Rightarrow>
          (\<lparr>allowed = True, rate_message = None\<rparr>,
           store(email \<mapsto> \<lparr>count = 1, resetAt = now + RATE_LIMIT_WINDOW\<rparr>))
      | Some rateData \<Rightarrow>
          if now > resetAt rateData then
            (\<lparr>allowed = True, rate_message = None\<rparr>,
             store(email \<mapsto> \<lparr>count = 1, resetAt = now + RATE_LIMIT_WINDOW\<rparr>))
          else if count rateData \<ge> MAX_REQUESTS_PER_HOUR then
            (\<lparr>allowed = False,
              rate_message = Some (''Too many requests. Try again after ''
                @ string_of_int (retry_minutes (resetAt rateData) now) @ '' minutes'')\<rparr>,
             store)
          else
            (\<lparr>allowed = True, rate_message = None\<rparr>,
             store(email \<mapsto> rateData\<lparr>count := count rateData + 1\<rparr>)))"

text \<open>A sequence of requests for one address, one clock reading each.\<close>

fun check_all :: "string \<Rightarrow> int list \<Rightarrow> rateLimitStore \<Rightarrow> rate_result list \<times> rateLimitStore" where
  "check_all email [] store = ([], store)"
| "check_all email (now # rest) store =
     (let (r, store1) = checkRateLimit email now store;
          (rs, store2) = check_all email rest store1
      in (r # rs, store2))"

subsection \<open>JavaScript numbers and the platform's arithmetic\<close>

text \<open>
  A JavaScript number is an IEEE 754 double: a finite value, read here as the real number
  it denotes, an infinity, or NaN. The comparison \<open>x < y\<close> is false whenever an operand is
  NaN.
\<close>

datatype jsnum = Num real | PosInf | NegInf | NaN

fun js_lt :: "jsnum \<Rightarrow> jsnum \<Rightarrow> bool" where
  "js_lt NaN y = False"
| "js_lt x NaN = False"
| "js_lt (Num a) (Num b) = (a < b)"
| "js_lt PosInf y = False"
| "js_lt x NegInf = False"
| "js_lt x PosInf = True"
| "js_lt NegInf y = True"

text \<open>
  What the rounded operations \<open>+\<close>, \<open>-\<close>, \<open>*\<close>, \<open>/\<close> and the functions of \<open>Math\<close> return
  is fixed by the platform, not by the source: they are taken as a parameter, so that every
  statement about the distance computation holds for whatever they return.
\<close>

record arith =
  f_add :: "jsnum \<Rightarrow> jsnum \<Rightarrow> jsnum"
  f_sub :: "jsnum \<Rightarrow> jsnum \<Rightarrow> jsnum"
  f_mul :: "jsnum \<Rightarrow> jsnum \<Rightarrow> jsnum"
  f_div :: "jsnum \<Rightarrow> jsnum \<Rightarrow> jsnum"
  f_sin :: "jsnum \<Rightarrow> jsnum"
  f_cos :: "jsnum \<Rightarrow> jsnum"
  f_sqrt :: "jsnum \<Rightarrow> jsnum"
  f_atan2 :: "jsnum \<Rightarrow> jsnum \<Rightarrow> jsnum"
  f_PI :: jsnum

text \<open>
  The angle of the point \<open>(x, y)\<close>, in \<open>(-\<pi>, \<pi>]\<close>, and 0 at the origin: what
  \<open>Math.atan2(y, x)\<close> approximates.
\<close>

definition atan2 :: "real \<Rightarrow> real \<Rightarrow> real" where
  "atan2 y x =
     (if x > 0 then arctan (y / x)
      else if x < 0 then (if y \<ge> 0 then arctan (y / x) + pi else arctan (y / x) - pi)
      else if y > 0 then pi / 2
      else if y < 0 then - (pi / 2)
      else 0)"

definition lift2 :: "(real \<Rightarrow> real \<Rightarrow> real) \<Rightarrow> jsnum \<Rightarrow> jsnum \<Rightarrow> jsnum" where
  "lift2 f x y = (case x of Num a \<Rightarrow> (case y of Num b \<Rightarrow> Num (f a b) | _ \<Rightarrow> NaN) | _ \<Rightarrow> NaN)"

text \<open>
  The arithmetic without rounding: the operations of the real numbers on finite operands,
  with the square root of a negative number NaN as \<open>Math.sqrt\<close> has it. It is the
  arithmetic that the platform's operations approximate.
\<close>

definition real_arith :: arith where
  "real_arith =
     \<lparr>f_add = lift2 (+),
      f_sub = lift2 (-),
      f_mul = lift2 (*),
      f_div = (\<lambda>x y. if y = Num 0 then NaN else lift2 (/) x y),
      f_sin = (\<lambda>x. case x of Num a \<Rightarrow> Num (sin a) | _ \<Rightarrow> NaN),
      f_cos = (\<lambda>x. case x of Num a \<Rightarrow> Num (cos a) | _ \<Rightarrow> NaN),
      f_sqrt = (\<lambda>x. case x of Num a \<Rightarrow> if a < 0 then NaN else Num (sqrt a) | _ \<Rightarrow> NaN),
      f_atan2 = lift2 atan2,
      f_PI = Num pi\<rparr>"

subsection \<open>\<open>utils/location.utils.js\<close>: distance and nearest station\<close>

definition toRad :: "arith \<Rightarrow> jsnum \<Rightarrow> jsnum" where
  "toRad m degrees = f_mul m degrees (f_div m (f_PI m) (Num 180))"

text \<open>
  The coordinates are the finite doubles the tables hold. The products of the second
  summand associate to the left, as \<open>*\<close> does.
\<close>

definition calculateDistance :: "arith \<Rightarrow> real \<Rightarrow> real \<Rightarrow> real \<Rightarrow> real \<Rightarrow> jsnum" where
  "calculateDistance m lat1 lon1 lat2 lon2 =
     (let R = Num 6371;
          dLat = toRad m (f_sub m (Num lat2) (Num lat1));
          dLon = toRad m (f_sub m (Num lon2) (Num lon1));
          a = f_add m
                (f_mul m (f_sin m (f_div m dLat (Num 2))) (f_sin m (f_div m dLat (Num 2))))
                (f_mul m
                   (f_mul m
                      (f_mul m (f_cos m (toRad m (Num lat1))) (f_cos m (toRad m (Num lat2))))
                      (f_sin m (f_div m dLon (Num 2))))
                   (f_sin m (f_div m dLon (Num 2))));
          c = f_mul m (Num 2) (f_atan2 m (f_sqrt m a) (f_sqrt m (f_sub m (Num 1) a)));
          distance = f_mul m R c
      in distance)"

record policeStation =
  ps_id :: string
  ps_name :: string
  ps_latitude :: real
  ps_longitude :: real
  ps_isActive :: bool

text \<open>
  The \<open>for\<close> loop of \<open>findNearestPoliceStation\<close> over \<open>allStations[1..]\<close>, carrying
  \<open>nearestStation\<close> and \<open>minDistance\<close>.
\<close>

fun nearest_loop ::
  "arith \<Rightarrow> real \<Rightarrow> real \<Rightarrow> policeStation \<Rightarrow> jsnum \<Rightarrow> policeStation list \<Rightarrow> policeStation \<times> jsnum" where
  "nearest_loop m latitude longitude nearestStation minDistance [] = (nearestStation, minDistance)"
| "nearest_loop m latitude longitude nearestStation minDistance (station # rest) =
     (let distance = calculateDistance m latitude longitude (ps_latitude station) (ps_longitude station)
      in if js_lt distance minDistance
         then nearest_loop m latitude longitude station distance rest
         else nearest_loop m latitude longitude nearestStation minDistance rest)"

text \<open>
  \<open>stations\<close> is the \<open>policeStation\<close> table; \<open>findMany({ where: { isActive: true } })\<close>
  keeps the active rows in table order.
\<close>

definition findNearestPoliceStation ::
  "arith \<Rightarrow> real \<Rightarrow> real \<Rightarrow> policeStation list \<Rightarrow> (policeStation \<times> jsnum) option" where
  "findNearestPoliceStation m latitude longitude stations =
     (case filter ps_isActive stations of
        [] \<Rightarrow> None
      | first # rest \<Rightarrow>
          Some (nearest_loop m latitude longitude first
                  (calculateDistance m latitude longitude (ps_latitude first) (ps_longitude first))
                  rest))"

subsection \<open>The database (\<open>prisma/migrations\<close>) and the Prisma calls the handlers make\<close>

record user =
  usr_id :: string
  usr_role :: string
  usr_isActive :: bool
  usr_credibilityScore :: int
  usr_policeStationId :: "string option"

record incident =
  inc_id :: string
  inc_title :: string
  inc_description :: string
  inc_category :: string
  inc_latitude :: real
  inc_longitude :: real
  inc_address :: "string option"
  inc_city :: "string option"
  inc_state :: "string option"
  inc_pincode :: "string option"
  inc_policeStationId :: "string option"
  inc_status :: string
  inc_verificationNote :: "string option"
  inc_verifiedAt :: "int option"
  inc_verifiedBy :: "string option"
  inc_publisherId :: string
  inc_publisherBadge :: string
  inc_viewCount :: int
  inc_shareCount :: int
  inc_incidentTime :: int
  inc_createdAt :: int

text \<open>
  A value of the JSON object a notification carries in \<open>data\<close> before \<open>JSON.stringify\<close>:
  text, or a number printed by \<open>toFixed(2)\<close>.
\<close>

datatype jsval = JString string | JFixed2 jsnum

record notification =
  ntf_userId :: string
  ntf_type :: string
  ntf_title :: string
  ntf_message :: string
  ntf_data :: "(string \<times> jsval) list"

record auditLog =
  aud_adminId :: string
  aud_action :: string
  aud_targetType :: string
  aud_targetId :: string
  aud_reason :: "string option"
  aud_ipAddress :: "string option"
  aud_userAgent :: "string option"

record report =
  rep_id :: string
  rep_incidentId :: string
  rep_reporterId :: string
  rep_reason :: string
  rep_status :: string
  rep_reviewedById :: "string option"
  rep_reviewNote :: "string option"
  rep_reviewedAt :: "int option"

record dailyPostTracker =
  dpt_userId :: string
  dpt_date :: int
  dpt_postCount :: int

record incidentMedia =
  med_id :: string
  med_incidentId :: "string option"

record db =
  users :: "user list"
  incidents :: "incident list"
  policeStations :: "policeStation list"
  notifications :: "notification list"
  auditLogs :: "auditLog list"
  reports :: "report list"
  dailyPostTrackers :: "dailyPostTracker list"
  incidentMedias :: "incidentMedia list"

text \<open>
  \<open>AppError message statusCode\<close> is the handlers' own exception; \<open>PrismaError code\<close> is a
  rejected Prisma call (P2025: the row to update does not exist, P2003: a foreign key
  points to no row, P2002: the primary key is taken, P2020: the value is out of range for
  its column); \<open>Response statusCode message\<close> is an error
  answer a middleware sends itself.
\<close>

datatype error = AppError string nat | PrismaError string | Response nat string

text \<open>
  An optional field of a request body: absent (\<open>undefined\<close>), \<open>null\<close>, or a string. In the
  \<open>data\<close> of a Prisma update an \<open>undefined\<close> field leaves the column as it is.
\<close>

datatype jsfield = Undefined | Null | Str string

definition or_default :: "jsfield \<Rightarrow> string \<Rightarrow> string" where
  \<comment> \<open>\<open>field || fallback\<close>: \<open>undefined\<close>, \<open>null\<close> and the empty string are falsy\<close>
  "or_default field fallback =
     (case field of Undefined \<Rightarrow> fallback | Null \<Rightarrow> fallback
      | Str s \<Rightarrow> if s = [] then fallback else s)"

definition set_column :: "jsfield \<Rightarrow> string option \<Rightarrow> string option" where
  "set_column field old = (case field of Undefined \<Rightarrow> old | Null \<Rightarrow> None | Str s \<Rightarrow> Some s)"

definition column_value :: "jsfield \<Rightarrow> string option" where
  \<comment> \<open>the column of a created row: absent and \<open>null\<close> both store NULL\<close>
  "column_value field = set_column field None"

definition truthy :: "string option \<Rightarrow> string option" where
  \<comment> \<open>a nullable text in a condition: \<open>null\<close>, \<open>undefined\<close> and the empty string are falsy\<close>
  "truthy x = (case x of None \<Rightarrow> None | Some s \<Rightarrow> if s = [] then None else Some s)"

record request =
  req_userId :: string
  req_role :: string
  req_ip :: "string option"
  req_userAgent :: "string option"

text \<open>
  The columns \<open>credibilityScore\<close>, \<open>viewCount\<close> and \<open>postCount\<close> are of the type
  INTEGER, 32 bits wide: the store refuses an update whose result is outside its range.
\<close>

definition int32 :: "int \<Rightarrow> bool" where
  "int32 x = (- 2147483648 \<le> x \<and> x \<le> 2147483647)"

definition user_exists :: "db \<Rightarrow> string \<Rightarrow> bool" where
  "user_exists d uid = (find (\<lambda>u. usr_id u = uid) (users d) \<noteq> None)"

definition incident_findUnique :: "string \<Rightarrow> db \<Rightarrow> incident option" where
  "incident_findUnique iid d = find (\<lambda>i. inc_id i = iid) (incidents d)"

definition incident_update :: "string \<Rightarrow> (incident \<Rightarrow> incident) \<Rightarrow> db \<Rightarrow> error + incident \<times> db" where
  "incident_update iid f d =
     (case incident_findUnique iid d of
        None \<Rightarrow> Inl (PrismaError ''P2025'')
      | Some i \<Rightarrow>
          Inr (f i, d\<lparr>incidents := map (\<lambda>r. if inc_id r = iid then f r else r) (incidents d)\<rparr>))"

definition user_update :: "string \<Rightarrow> (user \<Rightarrow> user) \<Rightarrow> db \<Rightarrow> error + db" where
  "user_update uid f d =
     (case find (\<lambda>u. usr_id u = uid) (users d) of
        None \<Rightarrow> Inl (PrismaError ''P2025'')
      | Some u \<Rightarrow>
          if int32 (usr_credibilityScore (f u))
          then Inr (d\<lparr>users := map (\<lambda>u. if usr_id u = uid then f u else u) (users d)\<rparr>)
          else Inl (PrismaError ''P2020''))"

definition notification_create :: "notification \<Rightarrow> db \<Rightarrow> error + db" where
  "notification_create n d =
     (if user_exists d (ntf_userId n)
      then Inr (d\<lparr>notifications := notifications d @ [n]\<rparr>)
      else Inl (PrismaError ''P2003''))"

definition auditLog_create :: "auditLog \<Rightarrow> db \<Rightarrow> error + db" where
  "auditLog_create a d =
     (if user_exists d (aud_adminId a)
      then Inr (d\<lparr>auditLogs := auditLogs d @ [a]\<rparr>)
      else Inl (PrismaError ''P2003''))"

definition report_update :: "string \<Rightarrow> (report \<Rightarrow> report) \<Rightarrow> db \<Rightarrow> error + db" where
  "report_update rid f d =
     (case find (\<lambda>r. rep_id r = rid) (reports d) of
        None \<Rightarrow> Inl (PrismaError ''P2025'')
      | Some r \<Rightarrow>
          (case rep_reviewedById (f r) of
             None \<Rightarrow> Inr (d\<lparr>reports := map (\<lambda>r. if rep_id r = rid then f r else r) (reports d)\<rparr>)
           | Some u \<Rightarrow>
               if user_exists d u
               then Inr (d\<lparr>reports := map (\<lambda>r. if rep_id r = rid then f r else r) (reports d)\<rparr>)
               else Inl (PrismaError ''P2003'')))"

subsection \<open>\<open>notifyPoliceStation\<close> (\<open>utils/location.utils.js\<close>)\<close>

definition toLowerCase :: "string \<Rightarrow> string" where
  \<comment> \<open>on the letters A to Z, which is what the category names are made of\<close>
  "toLowerCase s =
     map (\<lambda>c. case map_of (zip ''ABCDEFGHIJKLMNOPQRSTUVWXYZ'' ''abcdefghijklmnopqrstuvwxyz'') c of
                 None \<Rightarrow> c | Some l \<Rightarrow> l) s"

text \<open>
  The second argument of the source is \<open>{ ...incident, distance: result.distance.toFixed(2) }\<close>:
  the incident and the distance are passed side by side.
\<close>

definition notifyPoliceStation :: "string \<Rightarrow> incident \<Rightarrow> jsnum \<Rightarrow> db \<Rightarrow> db" where
  "notifyPoliceStation policeStationId incident distance d =
     (let officers = filter (\<lambda>u. usr_policeStationId u = Some policeStationId \<and>
                                  usr_role u = ''POLICE'' \<and> usr_isActive u) (users d)
      in if officers = [] then d
         else d\<lparr>notifications := notifications d @
                map (\<lambda>officer.
                  \<lparr>ntf_userId = usr_id officer,
                   ntf_type = ''NEW_INCIDENT_NEARBY'',
                   ntf_title = ''New Incident: '' @ inc_category incident,
                   ntf_message = ''A new '' @ toLowerCase (inc_category incident)
                     @ '' incident has been reported near your jurisdiction at ''
                     @ (case inc_address incident of
                          None \<Rightarrow> ''the location''
                        | Some a \<Rightarrow> if a = [] then ''the location'' else a)
                     @ ''.'',
                   ntf_data = [(''incidentId'', JString (inc_id incident)),
                               (''distance'', JFixed2 distance),
                               (''urgency'', JString
                                  (if inc_category incident = ''FIRE'' \<or> inc_category incident = ''ACCIDENT''
                                   then ''HIGH'' else ''MEDIUM''))]\<rparr>) officers\<rparr>)"

subsection \<open>\<open>routes/admin.routes.js\<close>: \<open>PUT /incidents/:id/status\<close>\<close>

text \<open>
  The handler as it runs after \<open>authenticate\<close>, \<open>authorize('ADMIN', 'MODERATOR')\<close>,
  \<open>idValidator\<close> and \<open>validate\<close> have let the request through: \<open>req\<close> is the moderator.
  \<open>m\<close> is the platform's arithmetic, used by the distance computation only;
  \<open>status\<close> is the body's field, any text; \<open>now\<close> is the \<open>new Date()\<close> of the update.
  A zero latitude or longitude is falsy in \<open>incident.latitude && incident.longitude\<close>.
\<close>

text \<open>
  The four blocks of the handler, under the comments that head them in the source, then
  the handler that runs them in order.
\<close>

definition resolve_station :: "arith \<Rightarrow> string \<Rightarrow> incident \<Rightarrow> db \<Rightarrow> string option \<times> db" where
  \<comment> \<open>Find nearest police station if being verified and location exists\<close>
  "resolve_station m status incident d =
     (if status = ''VERIFIED'' \<and> inc_latitude incident \<noteq> 0 \<and> inc_longitude incident \<noteq> 0
      then (case findNearestPoliceStation m (inc_latitude incident) (inc_longitude incident)
                   (policeStations d) of
              None \<Rightarrow> (inc_policeStationId incident, d)
            | Some (station, distance) \<Rightarrow>
                (Some (ps_id station), notifyPoliceStation (ps_id station) incident distance d))
      else (inc_policeStationId incident, d))"

definition publisher_notification :: "string \<Rightarrow> jsfield \<Rightarrow> incident \<Rightarrow> notification" where
  \<comment> \<open>Create notification for publisher\<close>
  "publisher_notification status verificationNote incident =
     \<lparr>ntf_userId = inc_publisherId incident,
      ntf_type = (if status = ''REJECTED'' then ''INCIDENT_REJECTED''
                  else if status = ''TAKEN_DOWN'' then ''INCIDENT_REPORTED''
                  else ''INCIDENT_VERIFIED''),
      ntf_title = (if status = ''VERIFIED'' then ''Incident Verified!'' else ''Incident Status Update''),
      ntf_message =
        (if status = ''REJECTED''
         then ''Your incident report was rejected. Reason: '' @ or_default verificationNote ''Not specified''
         else if status = ''TAKEN_DOWN''
         then ''Your incident report was taken down. Reason: ''
                @ or_default verificationNote ''Policy violation''
         else ''Your incident report has been verified and is now visible to the public.''),
      ntf_data = [(''incidentId'', JString (inc_id incident))]\<rparr>"

definition update_credibility :: "string \<Rightarrow> incident \<Rightarrow> db \<Rightarrow> error + db" where
  \<comment> \<open>Update user credibility score\<close>
  "update_credibility status incident d =
     (if status = ''VERIFIED''
      then user_update (inc_publisherId incident)
             (\<lambda>u. u\<lparr>usr_credibilityScore := usr_credibilityScore u + 2\<rparr>) d
      else if status = ''REJECTED''
      then user_update (inc_publisherId incident)
             (\<lambda>u. u\<lparr>usr_credibilityScore := usr_credibilityScore u - 1\<rparr>) d
      else Inr d)"

definition audit_entry :: "request \<Rightarrow> string \<Rightarrow> jsfield \<Rightarrow> incident \<Rightarrow> auditLog" where
  \<comment> \<open>Create audit log\<close>
  "audit_entry req status verificationNote incident =
     \<lparr>aud_adminId = req_userId req,
      aud_action = (if status = ''VERIFIED'' then ''VERIFY_INCIDENT''
                    else if status = ''REJECTED'' then ''REJECT_INCIDENT''
                    else ''TAKEDOWN_INCIDENT''),
      aud_targetType = ''INCIDENT'',
      aud_targetId = inc_id incident,
      aud_reason = column_value verificationNote,
      aud_ipAddress = req_ip req,
      aud_userAgent = req_userAgent req\<rparr>"

definition put_incident_status ::
  "arith \<Rightarrow> request \<Rightarrow> string \<Rightarrow> string \<Rightarrow> jsfield \<Rightarrow> int \<Rightarrow> db \<Rightarrow> (error + incident) \<times> db" where
  "put_incident_status m req iid status verificationNote now d =
     (if status \<notin> set [''VERIFIED'', ''REJECTED'', ''TAKEN_DOWN'']
      then (Inl (AppError ''Invalid status'' 400), d)
      else case incident_findUnique iid d of
        None \<Rightarrow> (Inl (AppError ''Incident not found'' 404), d)
      | Some incident \<Rightarrow>
          let (policeStationId, d1) = resolve_station m status incident d
          in case incident_update iid
                    (\<lambda>i. i\<lparr>inc_status := status,
                            inc_verificationNote := set_column verificationNote (inc_verificationNote i),
                            inc_verifiedAt := Some now,
                            inc_verifiedBy := Some (req_userId req),
                            inc_policeStationId :=
                              (case truthy policeStationId of
                                 None \<Rightarrow> inc_policeStationId i
                               | Some p \<Rightarrow> Some p)\<rparr>) d1 of
               Inl e \<Rightarrow> (Inl e, d1)
             | Inr (updated, d2) \<Rightarrow>
                 (case notification_create (publisher_notification status verificationNote incident) d2 of
                    Inl e \<Rightarrow> (Inl e, d2)
                  | Inr d3 \<Rightarrow>
                      (case update_credibility status incident d3 of
                         Inl e \<Rightarrow> (Inl e, d3)
                       | Inr d4 \<Rightarrow>
                           (case auditLog_create (audit_entry req status verificationNote incident) d4 of
                              Inl e \<Rightarrow> (Inl e, d4)
                            | Inr d5 \<Rightarrow> (Inr updated, d5)))))"

subsection \<open>\<open>routes/admin.routes.js\<close>: \<open>PUT /reports/:id\<close>\<close>

text \<open>
  The review of a complaint. \<open>takeDownIncident\<close> is the truth value of the body's field;
  \<open>now1\<close> and \<open>now2\<close> are the two \<open>new Date()\<close> of the handler. \<open>include: { incident: true }\<close>
  loads the incident of the complaint.
\<close>

definition put_report ::
  "request \<Rightarrow> string \<Rightarrow> string \<Rightarrow> jsfield \<Rightarrow> bool \<Rightarrow> int \<Rightarrow> int \<Rightarrow> db \<Rightarrow> (error + unit) \<times> db" where
  "put_report req rid status reviewNote takeDownIncident now1 now2 d =
     (if status \<notin> set [''REVIEWED'', ''ACTION_TAKEN'', ''DISMISSED'']
      then (Inl (AppError ''Invalid status'' 400), d)
      else case find (\<lambda>r. rep_id r = rid) (reports d) of
        None \<Rightarrow> (Inl (AppError ''Report not found'' 404), d)
      | Some report \<Rightarrow>
          (case report_update rid
                  (\<lambda>r. r\<lparr>rep_status := status,
                          rep_reviewNote := set_column reviewNote (rep_reviewNote r),
                          rep_reviewedById := Some (req_userId req),
                          rep_reviewedAt := Some now1\<rparr>) d of
             Inl e \<Rightarrow> (Inl e, d)
           | Inr d1 \<Rightarrow>
               (case (if takeDownIncident then incident_findUnique (rep_incidentId report) d else None) of
                  None \<Rightarrow> (Inr (), d1)
                | Some incident \<Rightarrow>
                    (case incident_update (inc_id incident)
                            (\<lambda>i. i\<lparr>inc_status := ''TAKEN_DOWN'',
                                    inc_verificationNote :=
                                      Some (or_default reviewNote ''Taken down due to reports''),
                                    inc_verifiedBy := Some (req_userId req),
                                    inc_verifiedAt := Some now2\<rparr>) d1 of
                       Inl e \<Rightarrow> (Inl e, d1)
                     | Inr (updated, d2) \<Rightarrow>
                         (case notification_create
                                 \<lparr>ntf_userId = inc_publisherId incident,
                                  ntf_type = ''INCIDENT_REPORTED'',
                                  ntf_title = ''Incident Taken Down'',
                                  ntf_message = ''Your incident '' @ [CHR 0x22] @ inc_title incident
                                    @ [CHR 0x22] @ '' was taken down due to policy violation.'',
                                  ntf_data = []\<rparr> d2 of
                            Inl e \<Rightarrow> (Inl e, d2)
                          | Inr d3 \<Rightarrow> (Inr (), d3))))))"

subsection \<open>\<open>routes/incident.routes.js\<close>: the public reads\<close>

text \<open>
  The query string of \<open>GET /api/incidents\<close> after \<open>paginationValidator\<close>: \<open>page\<close> and
  \<open>limit\<close>, when present, are integers; the other parameters are text. The empty string
  and 0 are falsy in \<open>x || fallback\<close> and in \<open>x && {...}\<close>.
\<close>

record feed_query =
  q_page :: "nat option"
  q_limit :: "nat option"
  q_category :: "string option"
  q_status :: "string option"
  q_city :: "string option"

text \<open>
  \<open>city: { contains: city }\<close> reaches the store as \<open>city LIKE '%' || city || '%'\<close> with the
  parameter's text unescaped: in the pattern \<open>%\<close> matches any text, \<open>_\<close> any one character,
  and a backslash makes the character after it literal.
\<close>

fun like_match :: "string \<Rightarrow> string \<Rightarrow> bool" where
  "like_match [] t = (t = [])"
| "like_match (p # ps) [] = (p = CHR ''%'' \<and> like_match ps [])"
| "like_match (p # ps) (c # cs) =
     (if p = CHR ''%'' then like_match ps (c # cs) \<or> like_match (p # ps) cs
      else if p = CHR ''_'' then like_match ps cs
      else if p = CHR 0x5C then (case ps of [] \<Rightarrow> False | q # qs \<Rightarrow> q = c \<and> like_match qs cs)
      else p = c \<and> like_match ps cs)"

definition feed_where :: "feed_query \<Rightarrow> incident \<Rightarrow> bool" where
  "feed_where q i =
     (inc_status i = (case truthy (q_status q) of None \<Rightarrow> ''VERIFIED'' | Some s \<Rightarrow> s) \<and>
      (case truthy (q_category q) of None \<Rightarrow> True | Some c \<Rightarrow> inc_category i = c) \<and>
      (case truthy (q_city q) of
         None \<Rightarrow> True
       | Some c \<Rightarrow> (case inc_city i of None \<Rightarrow> False | Some ic \<Rightarrow> like_match (''%'' @ c @ ''%'') ic)))"

record feed_response =
  fr_incidents :: "incident list"
  fr_page :: nat
  fr_limit :: nat
  fr_total :: nat
  fr_totalPages :: nat

text \<open>
  \<open>viewer\<close> is \<open>req.user\<close> as \<open>optionalAuth\<close> leaves it: nothing for an anonymous reader.
  The handler does not read it. \<open>orderBy: { createdAt: 'desc' }\<close> is a sort by creation time,
  newest first.
\<close>

definition get_incidents :: "request option \<Rightarrow> feed_query \<Rightarrow> db \<Rightarrow> feed_response" where
  "get_incidents viewer q d =
     (let page = (case q_page q of None \<Rightarrow> 1 | Some p \<Rightarrow> if p = 0 then 1 else p);
          limit = (case q_limit q of None \<Rightarrow> 10 | Some l \<Rightarrow> if l = 0 then 10 else l);
          skip = (page - 1) * limit;
          matching = filter (feed_where q) (incidents d);
          total = length matching
      in \<lparr>fr_incidents = take limit (drop skip (rev (sort_key inc_createdAt matching))),
          fr_page = page,
          fr_limit = limit,
          fr_total = total,
          fr_totalPages = (total + limit - 1) div limit\<rparr>)"

definition get_incident :: "request option \<Rightarrow> string \<Rightarrow> db \<Rightarrow> (error + incident) \<times> db" where
  "get_incident viewer iid d =
     (case incident_findUnique iid d of
        None \<Rightarrow> (Inl (AppError ''Incident not found'' 404), d)
      | Some incident \<Rightarrow>
          if inc_status incident \<noteq> ''VERIFIED'' \<and>
             (case viewer of
                None \<Rightarrow> True
              | Some u \<Rightarrow> req_userId u \<noteq> inc_publisherId incident \<and>
                          req_role u \<notin> set [''ADMIN'', ''MODERATOR''])
          then (Inl (AppError ''Incident not found'' 404), d)
          else if \<not> int32 (inc_viewCount incident + 1)
          then (Inl (PrismaError ''P2020''), d)
          else (case incident_update iid (\<lambda>i. i\<lparr>inc_viewCount := inc_viewCount i + 1\<rparr>) d of
                  Inl e \<Rightarrow> (Inl e, d)
                | Inr (updated, d1) \<Rightarrow> (Inr incident, d1)))"

subsection \<open>\<open>config/index.js\<close> and \<open>middleware/rateLimit.middleware.js\<close>: the daily quota\<close>






subsection \<open>\<open>routes/incident.routes.js\<close>: \<open>POST /api/incidents\<close>\<close>






lemma verifyOTP_absent:
  "store email = None \<Longrightarrow>
     verifyOTP email g now store = (\<lparr>success = False, message = ''OTP not found or expired''\<rparr>, store)"
  by (simp add: verifyOTP_def)

lemma verifyOTP_expired:
  "store email = Some e \<Longrightarrow> now > expiresAt e \<Longrightarrow>
     verifyOTP email g now store = (\<lparr>success = False, message = ''OTP expired''\<rparr>, store(email := None))"
  by (simp add: verifyOTP_def)

lemma verifyOTP_exhausted:
  "store email = Some e \<Longrightarrow> \<not> now > expiresAt e \<Longrightarrow> attempts e \<ge> 3 \<Longrightarrow>
     verifyOTP email g now store =
       (\<lparr>success = False, message = ''Maximum attempts exceeded''\<rparr>, store(email := None))"
  by (simp add: verifyOTP_def MAX_ATTEMPTS_def)

lemma verifyOTP_mismatch:
  "store email = Some e \<Longrightarrow> \<not> now > expiresAt e \<Longrightarrow> attempts e < 3 \<Longrightarrow> otp e \<noteq> g \<Longrightarrow>
     verifyOTP email g now store =
       (\<lparr>success = False, message = ''Invalid OTP''\<rparr>, store(email \<mapsto> e\<lparr>attempts := attempts e + 1\<rparr>))"
  by (simp add: verifyOTP_def MAX_ATTEMPTS_def Let_def)

text \<open>One wrong guess: the answer is a failure, and the entry is either gone or one attempt older.\<close>

lemma verifyOTP_wrong_step:
  assumes "store email = None \<or> (\<exists>e. store email = Some e \<and> otp e = code \<and> attempts e \<ge> k)"
    and "g \<noteq> code"
  shows "\<not> success (fst (verifyOTP email g now store)) \<and>
         (snd (verifyOTP email g now store) email = None \<or>
          (\<exists>e. snd (verifyOTP email g now store) email = Some e \<and> otp e = code \<and> attempts e \<ge> Suc k))"
proof (cases "store email")
  case None
  then show ?thesis by (simp add: verifyOTP_def)
next
  case (Some e)
  with assms have "otp e = code" "attempts e \<ge> k" by auto
  with Some assms(2) show ?thesis by (auto simp: verifyOTP_def Let_def)
qed

lemma verifyOTP_at_ceiling:
  assumes "store email = None \<or> (\<exists>e. store email = Some e \<and> attempts e \<ge> 3)"
  shows "\<not> success (fst (verifyOTP email g now store)) \<and> snd (verifyOTP email g now store) email = None"
  using assms by (cases "store email") (auto simp: verifyOTP_def Let_def MAX_ATTEMPTS_def)

lemma three_wrong_then_any:
  assumes "g1 \<noteq> code" "g2 \<noteq> code" "g3 \<noteq> code"
  shows "(\<forall>r \<in> set (fst (verify_all email [(g1, t1), (g2, t2), (g3, t3), (g4, t4)]
                          (storeOTP email code n1 n2 store))). \<not> success r) \<and>
         snd (verify_all email [(g1, t1), (g2, t2), (g3, t3), (g4, t4)]
                (storeOTP email code n1 n2 store)) email = None"
proof -
  let ?s0 = "storeOTP email code n1 n2 store"
  let ?s1 = "snd (verifyOTP email g1 t1 ?s0)"
  let ?s2 = "snd (verifyOTP email g2 t2 ?s1)"
  let ?s3 = "snd (verifyOTP email g3 t3 ?s2)"
  have 0: "?s0 email = None \<or> (\<exists>e. ?s0 email = Some e \<and> otp e = code \<and> attempts e \<ge> 0)"
    by (simp add: storeOTP_def)
  from verifyOTP_wrong_step[where store="?s0" and email=email and code=code and k=0 and g=g1 and now=t1] 0 assms(1)
  have f1: "\<not> success (fst (verifyOTP email g1 t1 ?s0))"
    and 1: "?s1 email = None \<or> (\<exists>e. ?s1 email = Some e \<and> otp e = code \<and> attempts e \<ge> Suc 0)"
    by blast+
  from verifyOTP_wrong_step[where store="?s1" and email=email and code=code and k="Suc 0" and g=g2 and now=t2] 1 assms(2)
  have f2: "\<not> success (fst (verifyOTP email g2 t2 ?s1))"
    and 2: "?s2 email = None \<or> (\<exists>e. ?s2 email = Some e \<and> otp e = code \<and> attempts e \<ge> Suc (Suc 0))"
    by blast+
  from verifyOTP_wrong_step[where store="?s2" and email=email and code=code and k="Suc (Suc 0)" and g=g3 and now=t3] 2 assms(3)
  have f3: "\<not> success (fst (verifyOTP email g3 t3 ?s2))"
    and 3: "?s3 email = None \<or> (\<exists>e. ?s3 email = Some e \<and> otp e = code \<and> attempts e \<ge> Suc (Suc (Suc 0)))"
    by blast+
  from 3 have c3: "?s3 email = None \<or> (\<exists>e. ?s3 email = Some e \<and> attempts e \<ge> 3)"
    by (auto simp: numeral_3_eq_3)
  from verifyOTP_at_ceiling[where store="?s3" and email=email and g=g4 and now=t4] c3
  have f4: "\<not> success (fst (verifyOTP email g4 t4 ?s3))"
    and 4: "snd (verifyOTP email g4 t4 ?s3) email = None"
    by blast+
  show ?thesis using f1 f2 f3 f4 4
    by (simp add: split_beta Let_def)
qed

text \<open>When no guess comes late, the entry outlives the third wrong guess and the fourth call removes it.\<close>

lemma three_wrong_in_time:
  assumes "g1 \<noteq> code" "g2 \<noteq> code" "g3 \<noteq> code"
    and "t1 \<le> n2 + OTP_EXPIRY" "t2 \<le> n2 + OTP_EXPIRY" "t3 \<le> n2 + OTP_EXPIRY" "t4 \<le> n2 + OTP_EXPIRY"
  shows "snd (verify_all email [(g1, t1), (g2, t2), (g3, t3)] (storeOTP email code n1 n2 store)) email
           = Some \<lparr>otp = code, attempts = 3, createdAt = n1, expiresAt = n2 + OTP_EXPIRY\<rparr> \<and>
         verifyOTP email g4 t4 (snd (verify_all email [(g1, t1), (g2, t2), (g3, t3)] (storeOTP email code n1 n2 store)))
           = (\<lparr>success = False, message = ''Maximum attempts exceeded''\<rparr>,
              (storeOTP email code n1 n2 store)(email := None))"
  using assms
  by (simp add: storeOTP_def verifyOTP_def Let_def MAX_ATTEMPTS_def)

text \<open>
  Claim C7 as stated fails in its last clause: the third failed attempt does not delete the
  entry. After the code 123456 is stored for a@x.com and three wrong values are tried in
  time, the entry is still stored, with three attempts; a fourth try with 123456 is answered
  "Maximum attempts exceeded", not "OTP not found or expired", and only that call removes
  the entry.
\<close>

theorem verifyOTP_third_failure_keeps_entry_counterexample:
  "snd (verify_all ''a@x.com'' [(''000000'', 1000), (''111111'', 2000), (''222222'', 3000)]
          (storeOTP ''a@x.com'' ''123456'' 0 0 Map.empty)) ''a@x.com''
     = Some \<lparr>otp = ''123456'', attempts = 3, createdAt = 0, expiresAt = 300000\<rparr> \<and>
   fst (verifyOTP ''a@x.com'' ''123456'' 4000
          (snd (verify_all ''a@x.com'' [(''000000'', 1000), (''111111'', 2000), (''222222'', 3000)]
                  (storeOTP ''a@x.com'' ''123456'' 0 0 Map.empty))))
     = \<lparr>success = False, message = ''Maximum attempts exceeded''\<rparr> \<and>
   snd (verifyOTP ''a@x.com'' ''123456'' 4000
          (snd (verify_all ''a@x.com'' [(''000000'', 1000), (''111111'', 2000), (''222222'', 3000)]
                  (storeOTP ''a@x.com'' ''123456'' 0 0 Map.empty)))) ''a@x.com''
     = None"
  by (simp add: storeOTP_def verifyOTP_def OTP_EXPIRY_def MAX_ATTEMPTS_def Let_def)

text \<open>
  Claim C7, amended. \<open>verifyOTP\<close> fails in four ways: with no stored entry it answers
  "OTP not found or expired" and changes nothing; with an entry whose expiry has passed it
  deletes the entry and answers "OTP expired"; with an entry that already counts three
  attempts it deletes the entry and answers "Maximum attempts exceeded"; on a wrong value it
  adds one to the attempt counter, keeps the entry and answers "Invalid OTP". Hence, after a
  code is stored for an address and three wrong values are tried, a fourth try fails whatever
  value it carries (the stored code included) and whatever the clock readings are, and no
  entry is left for the address afterwards. The entry is not deleted by the third failed
  attempt: when none of the four calls comes after the expiry, the entry is still stored with
  three attempts once the third wrong value has been answered, and it is the fourth call that
  removes it, answering "Maximum attempts exceeded".
\<close>

theorem verifyOTP_failure_modes:
  "(store email = None \<longrightarrow>
      verifyOTP email g now store =
        (\<lparr>success = False, message = ''OTP not found or expired''\<rparr>, store)) \<and>
   (\<forall>e. store email = Some e \<and> now > expiresAt e \<longrightarrow>
      verifyOTP email g now store =
        (\<lparr>success = False, message = ''OTP expired''\<rparr>, store(email := None))) \<and>
   (\<forall>e. store email = Some e \<and> \<not> now > expiresAt e \<and> attempts e \<ge> 3 \<longrightarrow>
      verifyOTP email g now store =
        (\<lparr>success = False, message = ''Maximum attempts exceeded''\<rparr>, store(email := None))) \<and>
   (\<forall>e. store email = Some e \<and> \<not> now > expiresAt e \<and> attempts e < 3 \<and> otp e \<noteq> g \<longrightarrow>
      verifyOTP email g now store =
        (\<lparr>success = False, message = ''Invalid OTP''\<rparr>,
         store(email \<mapsto> e\<lparr>attempts := attempts e + 1\<rparr>))) \<and>
   (g1 \<noteq> code \<and> g2 \<noteq> code \<and> g3 \<noteq> code \<longrightarrow>
      (\<forall>r \<in> set (fst (verify_all email [(g1, t1), (g2, t2), (g3, t3), (g4, t4)]
                          (storeOTP email code n1 n2 store))). \<not> success r) \<and>
      snd (verify_all email [(g1, t1), (g2, t2), (g3, t3), (g4, t4)]
             (storeOTP email code n1 n2 store)) email = None \<and>
      (t1 \<le> n2 + OTP_EXPIRY \<and> t2 \<le> n2 + OTP_EXPIRY \<and> t3 \<le> n2 + OTP_EXPIRY \<and>
       t4 \<le> n2 + OTP_EXPIRY \<longrightarrow>
         snd (verify_all email [(g1, t1), (g2, t2), (g3, t3)]
                (storeOTP email code n1 n2 store)) email
           = Some \<lparr>otp = code, attempts = 3, createdAt = n1, expiresAt = n2 + OTP_EXPIRY\<rparr> \<and>
         verifyOTP email g4 t4
             (snd (verify_all email [(g1, t1), (g2, t2), (g3, t3)]
                     (storeOTP email code n1 n2 store)))
           = (\<lparr>success = False, message = ''Maximum attempts exceeded''\<rparr>,
              (storeOTP email code n1 n2 store)(email := None))))"
proof -
  have p1: "store email = None \<longrightarrow>
      verifyOTP email g now store =
        (\<lparr>success = False, message = ''OTP not found or expired''\<rparr>, store)"
    by (simp add: verifyOTP_absent)
  have p2: "\<forall>e. store email = Some e \<and> now > expiresAt e \<longrightarrow>
      verifyOTP email g now store =
        (\<lparr>success = False, message = ''OTP expired''\<rparr>, store(email := None))"
    by (simp add: verifyOTP_expired)
  have p3: "\<forall>e. store email = Some e \<and> \<not> now > expiresAt e \<and> attempts e \<ge> 3 \<longrightarrow>
      verifyOTP email g now store =
        (\<lparr>success = False, message = ''Maximum attempts exceeded''\<rparr>, store(email := None))"
    using verifyOTP_exhausted[of store email _ now g] by simp
  have p4: "\<forall>e. store email = Some e \<and> \<not> now > expiresAt e \<and> attempts e < 3 \<and> otp e \<noteq> g \<longrightarrow>
      verifyOTP email g now store =
        (\<lparr>success = False, message = ''Invalid OTP''\<rparr>,
         store(email \<mapsto> e\<lparr>attempts := attempts e + 1\<rparr>))"
    using verifyOTP_mismatch[of store email _ now g] by simp
  have p5: "g1 \<noteq> code \<and> g2 \<noteq> code \<and> g3 \<noteq> code \<longrightarrow>
      (\<forall>r \<in> set (fst (verify_all email [(g1, t1), (g2, t2), (g3, t3), (g4, t4)]
                          (storeOTP email code n1 n2 store))). \<not> success r) \<and>
      snd (verify_all email [(g1, t1), (g2, t2), (g3, t3), (g4, t4)]
             (storeOTP email code n1 n2 store)) email = None \<and>
      (t1 \<le> n2 + OTP_EXPIRY \<and> t2 \<le> n2 + OTP_EXPIRY \<and> t3 \<le> n2 + OTP_EXPIRY \<and>
       t4 \<le> n2 + OTP_EXPIRY \<longrightarrow>
         snd (verify_all email [(g1, t1), (g2, t2), (g3, t3)]
                (storeOTP email code n1 n2 store)) email
           = Some \<lparr>otp = code, attempts = 3, createdAt = n1, expiresAt = n2 + OTP_EXPIRY\<rparr> \<and>
         verifyOTP email g4 t4
             (snd (verify_all email [(g1, t1), (g2, t2), (g3, t3)]
                     (storeOTP email code n1 n2 store)))
           = (\<lparr>success = False, message = ''Maximum attempts exceeded''\<rparr>,
              (storeOTP email code n1 n2 store)(email := None)))"
  proof (intro impI)
    assume "g1 \<noteq> code \<and> g2 \<noteq> code \<and> g3 \<noteq> code"
    then have w: "g1 \<noteq> code" "g2 \<noteq> code" "g3 \<noteq> code" by simp_all
    note any = three_wrong_then_any[OF w, of email t1 t2 t3 g4 t4 n1 n2 store]
    have late: "t1 \<le> n2 + OTP_EXPIRY \<and> t2 \<le> n2 + OTP_EXPIRY \<and> t3 \<le> n2 + OTP_EXPIRY \<and>
       t4 \<le> n2 + OTP_EXPIRY \<longrightarrow>
         snd (verify_all email [(g1, t1), (g2, t2), (g3, t3)]
                (storeOTP email code n1 n2 store)) email
           = Some \<lparr>otp = code, attempts = 3, createdAt = n1, expiresAt = n2 + OTP_EXPIRY\<rparr> \<and>
         verifyOTP email g4 t4
             (snd (verify_all email [(g1, t1), (g2, t2), (g3, t3)]
                     (storeOTP email code n1 n2 store)))
           = (\<lparr>success = False, message = ''Maximum attempts exceeded''\<rparr>,
              (storeOTP email code n1 n2 store)(email := None))"
      using three_wrong_in_time[OF w, of t1 n2 t2 t3 t4 email n1 store g4] by blast
    from any late show "(\<forall>r \<in> set (fst (verify_all email [(g1, t1), (g2, t2), (g3, t3), (g4, t4)]
                          (storeOTP email code n1 n2 store))). \<not> success r) \<and>
      snd (verify_all email [(g1, t1), (g2, t2), (g3, t3), (g4, t4)]
             (storeOTP email code n1 n2 store)) email = None \<and>
      (t1 \<le> n2 + OTP_EXPIRY \<and> t2 \<le> n2 + OTP_EXPIRY \<and> t3 \<le> n2 + OTP_EXPIRY \<and>
       t4 \<le> n2 + OTP_EXPIRY \<longrightarrow>
         snd (verify_all email [(g1, t1), (g2, t2), (g3, t3)]
                (storeOTP email code n1 n2 store)) email
           = Some \<lparr>otp = code, attempts = 3, createdAt = n1, expiresAt = n2 + OTP_EXPIRY\<rparr> \<and>
         verifyOTP email g4 t4
             (snd (verify_all email [(g1, t1), (g2, t2), (g3, t3)]
                     (storeOTP email code n1 n2 store)))
           = (\<lparr>success = False, message = ''Maximum attempts exceeded''\<rparr>,
              (storeOTP email code n1 n2 store)(email := None)))"
      by (intro conjI) (elim conjE, assumption)+
  qed
  from p1 p2 p3 p4 p5 show ?thesis by (intro conjI)
qed

text \<open>
  The five parts at concrete inputs: an empty store; a code stored at time 0 and tried at
  400000 ms (late), tried with three attempts already counted, tried with a wrong value; and
  the code 123456 stored for a@x.com, three wrong values, then 123456 itself.
\<close>

theorem verifyOTP_failure_modes_witness:
  "verifyOTP ''a@x.com'' ''123456'' 7 Map.empty =
     (\<lparr>success = False, message = ''OTP not found or expired''\<rparr>, Map.empty) \<and>
   verifyOTP ''a@x.com'' ''123456'' 400000
       [''a@x.com'' \<mapsto> \<lparr>otp = ''123456'', attempts = 0, createdAt = 0, expiresAt = 300000\<rparr>] =
     (\<lparr>success = False, message = ''OTP expired''\<rparr>, Map.empty) \<and>
   verifyOTP ''a@x.com'' ''123456'' 1000
       [''a@x.com'' \<mapsto> \<lparr>otp = ''123456'', attempts = 3, createdAt = 0, expiresAt = 300000\<rparr>] =
     (\<lparr>success = False, message = ''Maximum attempts exceeded''\<rparr>, Map.empty) \<and>
   verifyOTP ''a@x.com'' ''000000'' 1000
       [''a@x.com'' \<mapsto> \<lparr>otp = ''123456'', attempts = 2, createdAt = 0, expiresAt = 300000\<rparr>] =
     (\<lparr>success = False, message = ''Invalid OTP''\<rparr>,
      [''a@x.com'' \<mapsto> \<lparr>otp = ''123456'', attempts = 3, createdAt = 0, expiresAt = 300000\<rparr>]) \<and>
   map success (fst (verify_all ''a@x.com''
                  [(''000000'', 1000), (''111111'', 2000), (''222222'', 3000), (''123456'', 4000)]
                  (storeOTP ''a@x.com'' ''123456'' 0 0 Map.empty)))
     = [False, False, False, False] \<and>
   snd (verify_all ''a@x.com''
          [(''000000'', 1000), (''111111'', 2000), (''222222'', 3000), (''123456'', 4000)]
          (storeOTP ''a@x.com'' ''123456'' 0 0 Map.empty)) ''a@x.com'' = None \<and>
   snd (verify_all ''a@x.com'' [(''000000'', 1000), (''111111'', 2000), (''222222'', 3000)]
          (storeOTP ''a@x.com'' ''123456'' 0 0 Map.empty)) ''a@x.com''
     = Some \<lparr>otp = ''123456'', attempts = 3, createdAt = 0, expiresAt = 300000\<rparr>"
proof -
  note a = verifyOTP_failure_modes[of Map.empty "''a@x.com''" "''123456''" 7]
  note b = verifyOTP_failure_modes[of
      "[''a@x.com'' \<mapsto> \<lparr>otp = ''123456'', attempts = 0, createdAt = 0, expiresAt = 300000\<rparr>]"
      "''a@x.com''" "''123456''" 400000]
  note c = verifyOTP_failure_modes[of
      "[''a@x.com'' \<mapsto> \<lparr>otp = ''123456'', attempts = 3, createdAt = 0, expiresAt = 300000\<rparr>]"
      "''a@x.com''" "''123456''" 1000]
  note d = verifyOTP_failure_modes[of
      "[''a@x.com'' \<mapsto> \<lparr>otp = ''123456'', attempts = 2, createdAt = 0, expiresAt = 300000\<rparr>]"
      "''a@x.com''" "''000000''" 1000]
  note e = verifyOTP_failure_modes[of Map.empty "''a@x.com''" "''123456''" 7
      "''000000''" "''123456''" "''111111''" "''222222''" 1000 2000 3000 "''123456''" 4000 0 0]
  have 1: "verifyOTP ''a@x.com'' ''123456'' 7 Map.empty =
     (\<lparr>success = False, message = ''OTP not found or expired''\<rparr>, Map.empty)"
    using a by simp
  have 2: "verifyOTP ''a@x.com'' ''123456'' 400000
       [''a@x.com'' \<mapsto> \<lparr>otp = ''123456'', attempts = 0, createdAt = 0, expiresAt = 300000\<rparr>] =
     (\<lparr>success = False, message = ''OTP expired''\<rparr>, Map.empty)"
    using b by simp
  have 3: "verifyOTP ''a@x.com'' ''123456'' 1000
       [''a@x.com'' \<mapsto> \<lparr>otp = ''123456'', attempts = 3, createdAt = 0, expiresAt = 300000\<rparr>] =
     (\<lparr>success = False, message = ''Maximum attempts exceeded''\<rparr>, Map.empty)"
    using c by simp
  have 4: "verifyOTP ''a@x.com'' ''000000'' 1000
       [''a@x.com'' \<mapsto> \<lparr>otp = ''123456'', attempts = 2, createdAt = 0, expiresAt = 300000\<rparr>] =
     (\<lparr>success = False, message = ''Invalid OTP''\<rparr>,
      [''a@x.com'' \<mapsto> \<lparr>otp = ''123456'', attempts = 3, createdAt = 0, expiresAt = 300000\<rparr>])"
    using d by simp
  have 5: "map success (fst (verify_all ''a@x.com''
                  [(''000000'', 1000), (''111111'', 2000), (''222222'', 3000), (''123456'', 4000)]
                  (storeOTP ''a@x.com'' ''123456'' 0 0 Map.empty)))
     = [False, False, False, False] \<and>
   snd (verify_all ''a@x.com''
          [(''000000'', 1000), (''111111'', 2000), (''222222'', 3000), (''123456'', 4000)]
          (storeOTP ''a@x.com'' ''123456'' 0 0 Map.empty)) ''a@x.com'' = None \<and>
   snd (verify_all ''a@x.com'' [(''000000'', 1000), (''111111'', 2000), (''222222'', 3000)]
          (storeOTP ''a@x.com'' ''123456'' 0 0 Map.empty)) ''a@x.com''
     = Some \<lparr>otp = ''123456'', attempts = 3, createdAt = 0, expiresAt = 300000\<rparr>"
    using e by (simp add: OTP_EXPIRY_def split_beta)
  from 1 2 3 4 5 show ?thesis by blast
qed

lemma retry_minutes_bound:
  assumes "t0 \<le> now" "now \<le> t0 + RATE_LIMIT_WINDOW"
  shows "0 \<le> retry_minutes (t0 + RATE_LIMIT_WINDOW) now \<and>
         retry_minutes (t0 + RATE_LIMIT_WINDOW) now * 60000 \<le> RATE_LIMIT_WINDOW"
proof -
  let ?d = "t0 + RATE_LIMIT_WINDOW - now"
  have d: "0 \<le> ?d" "?d \<le> 3600000"
    using assms by (simp_all add: RATE_LIMIT_WINDOW_def)
  have "retry_minutes (t0 + RATE_LIMIT_WINDOW) now = \<lceil>real_of_int ?d / 60000\<rceil>"
    by (simp add: retry_minutes_def)
  moreover have "0 \<le> \<lceil>real_of_int ?d / 60000\<rceil>"
    using d(1) by (simp add: le_ceiling_iff)
  moreover have "\<lceil>real_of_int ?d / 60000\<rceil> \<le> 60"
    using d(2) by (simp add: ceiling_le_iff)
  ultimately show ?thesis by (simp add: RATE_LIMIT_WINDOW_def)
qed

lemma checkRateLimit_opens:
  assumes "store email = None \<or> (\<exists>r. store email = Some r \<and> now > resetAt r)"
  shows "checkRateLimit email now store =
           (\<lparr>allowed = True, rate_message = None\<rparr>,
            store(email \<mapsto> \<lparr>count = 1, resetAt = now + RATE_LIMIT_WINDOW\<rparr>))"
  using assms by (cases "store email") (auto simp: checkRateLimit_def)

lemma checkRateLimit_counts:
  assumes "store email = Some r" "now \<le> resetAt r" "count r < 5"
  shows "checkRateLimit email now store =
           (\<lparr>allowed = True, rate_message = None\<rparr>, store(email \<mapsto> r\<lparr>count := count r + 1\<rparr>))"
  using assms by (simp add: checkRateLimit_def MAX_REQUESTS_PER_HOUR_def)

lemma checkRateLimit_denies:
  assumes "store email = Some r" "now \<le> resetAt r" "5 \<le> count r"
  shows "checkRateLimit email now store =
           (\<lparr>allowed = False,
             rate_message = Some (''Too many requests. Try again after ''
               @ string_of_int (retry_minutes (resetAt r) now) @ '' minutes'')\<rparr>,
            store)"
  using assms by (simp add: checkRateLimit_def MAX_REQUESTS_PER_HOUR_def)

text \<open>Once the ceiling is reached, every further request inside the window is denied and nothing is written.\<close>

lemma check_all_denied:
  assumes "store email = Some r" "5 \<le> count r" "\<forall>t \<in> set ts. t \<le> resetAt r"
  shows "check_all email ts store =
           (map (\<lambda>t. \<lparr>allowed = False,
                        rate_message = Some (''Too many requests. Try again after ''
                          @ string_of_int (retry_minutes (resetAt r) t) @ '' minutes'')\<rparr>) ts,
            store)"
  using assms
proof (induction ts)
  case Nil
  then show ?case by simp
next
  case (Cons t ts)
  then have "t \<le> resetAt r" by simp
  with checkRateLimit_denies[where store=store and email=email and r=r and now=t] Cons.prems
  have "checkRateLimit email t store =
           (\<lparr>allowed = False,
             rate_message = Some (''Too many requests. Try again after ''
               @ string_of_int (retry_minutes (resetAt r) t) @ '' minutes'')\<rparr>,
            store)"
    by simp
  with Cons show ?case by simp
qed

text \<open>The first five requests of a window.\<close>

lemma check_all_first_five:
  assumes "store email = None \<or> (\<exists>r. store email = Some r \<and> t1 > resetAt r)"
    and "t2 \<le> t1 + RATE_LIMIT_WINDOW" "t3 \<le> t1 + RATE_LIMIT_WINDOW"
    and "t4 \<le> t1 + RATE_LIMIT_WINDOW" "t5 \<le> t1 + RATE_LIMIT_WINDOW"
  shows "check_all email [t1, t2, t3, t4, t5] store =
           ([\<lparr>allowed = True, rate_message = None\<rparr>, \<lparr>allowed = True, rate_message = None\<rparr>,
             \<lparr>allowed = True, rate_message = None\<rparr>, \<lparr>allowed = True, rate_message = None\<rparr>,
             \<lparr>allowed = True, rate_message = None\<rparr>],
            store(email \<mapsto> \<lparr>count = 5, resetAt = t1 + RATE_LIMIT_WINDOW\<rparr>))"
proof -
  let ?e = "\<lambda>k. \<lparr>count = k, resetAt = t1 + RATE_LIMIT_WINDOW\<rparr>"
  let ?ok = "\<lparr>allowed = True, rate_message = None\<rparr>"
  have s1: "checkRateLimit email t1 store = (?ok, store(email \<mapsto> ?e 1))"
    using assms(1) by (rule checkRateLimit_opens)
  have s2: "checkRateLimit email t2 (store(email \<mapsto> ?e 1)) = (?ok, store(email \<mapsto> ?e 2))"
    using checkRateLimit_counts[where store="store(email \<mapsto> ?e 1)" and email=email
        and r="?e 1" and now=t2] assms(2)
    by (simp add: eval_nat_numeral)
  have s3: "checkRateLimit email t3 (store(email \<mapsto> ?e 2)) = (?ok, store(email \<mapsto> ?e 3))"
    using checkRateLimit_counts[where store="store(email \<mapsto> ?e 2)" and email=email
        and r="?e 2" and now=t3] assms(3)
    by (simp add: eval_nat_numeral)
  have s4: "checkRateLimit email t4 (store(email \<mapsto> ?e 3)) = (?ok, store(email \<mapsto> ?e 4))"
    using checkRateLimit_counts[where store="store(email \<mapsto> ?e 3)" and email=email
        and r="?e 3" and now=t4] assms(4)
    by (simp add: eval_nat_numeral)
  have s5: "checkRateLimit email t5 (store(email \<mapsto> ?e 4)) = (?ok, store(email \<mapsto> ?e 5))"
    using checkRateLimit_counts[where store="store(email \<mapsto> ?e 4)" and email=email
        and r="?e 4" and now=t5] assms(5)
    by (simp add: eval_nat_numeral)
  show ?thesis
    by (simp only: check_all.simps Let_def s1 s2 s3 s4 s5 prod.case)
qed

text \<open>
  Claim C8. The limiter of code requests has ceiling 5 and a fixed window of one hour. Take
  an address that has no counter yet, or whose counter's reset time has passed at the first
  request \<open>t1\<close>: that request opens a window ending at \<open>t1 + RATE_LIMIT_WINDOW\<close>, it and the
  next four requests made before the window ends are allowed, and the counter then reads
  5. Every further request \<open>t\<close> inside the window is denied, leaves the store as it was (the
  counter is not incremented), and its message announces
  \<open>retry_minutes (t1 + RATE_LIMIT_WINDOW) t\<close> minutes, a number between 0 and 60, that is at most
  the window. Since the hypothesis covers an address whose reset time has passed, a request
  made after the reset time starts the count again and five requests are allowed anew.
\<close>

theorem checkRateLimit_window:
  assumes "store email = None \<or> (\<exists>r. store email = Some r \<and> t1 > resetAt r)"
    and "t2 \<le> t1 + RATE_LIMIT_WINDOW" "t3 \<le> t1 + RATE_LIMIT_WINDOW"
    and "t4 \<le> t1 + RATE_LIMIT_WINDOW" "t5 \<le> t1 + RATE_LIMIT_WINDOW"
    and "\<forall>t \<in> set ts. t1 \<le> t \<and> t \<le> t1 + RATE_LIMIT_WINDOW"
  shows "map allowed (fst (check_all email [t1, t2, t3, t4, t5] store)) = [True, True, True, True, True] \<and>
         snd (check_all email [t1, t2, t3, t4, t5] store) email
           = Some \<lparr>count = MAX_REQUESTS_PER_HOUR, resetAt = t1 + RATE_LIMIT_WINDOW\<rparr> \<and>
         map allowed (fst (check_all email ts (snd (check_all email [t1, t2, t3, t4, t5] store))))
           = replicate (length ts) False \<and>
         map rate_message (fst (check_all email ts (snd (check_all email [t1, t2, t3, t4, t5] store))))
           = map (\<lambda>t. Some (''Too many requests. Try again after ''
                   @ string_of_int (retry_minutes (t1 + RATE_LIMIT_WINDOW) t) @ '' minutes'')) ts \<and>
         snd (check_all email ts (snd (check_all email [t1, t2, t3, t4, t5] store)))
           = snd (check_all email [t1, t2, t3, t4, t5] store) \<and>
         (\<forall>t \<in> set ts. 0 \<le> retry_minutes (t1 + RATE_LIMIT_WINDOW) t \<and>
                        retry_minutes (t1 + RATE_LIMIT_WINDOW) t * 60000 \<le> RATE_LIMIT_WINDOW)"
proof -
  let ?st5 = "store(email \<mapsto> \<lparr>count = 5, resetAt = t1 + RATE_LIMIT_WINDOW\<rparr>)"
  have five: "check_all email [t1, t2, t3, t4, t5] store =
                ([\<lparr>allowed = True, rate_message = None\<rparr>, \<lparr>allowed = True, rate_message = None\<rparr>,
                  \<lparr>allowed = True, rate_message = None\<rparr>, \<lparr>allowed = True, rate_message = None\<rparr>,
                  \<lparr>allowed = True, rate_message = None\<rparr>], ?st5)"
    using assms(1-5) by (rule check_all_first_five)
  have "\<forall>t \<in> set ts. t \<le> resetAt \<lparr>count = 5, resetAt = t1 + RATE_LIMIT_WINDOW\<rparr>"
    using assms(6) by simp
  from check_all_denied[of ?st5 email "\<lparr>count = 5, resetAt = t1 + RATE_LIMIT_WINDOW\<rparr>" ts, OF _ _ this]
  have rest: "check_all email ts ?st5 =
           (map (\<lambda>t. \<lparr>allowed = False,
                        rate_message = Some (''Too many requests. Try again after ''
                          @ string_of_int (retry_minutes (t1 + RATE_LIMIT_WINDOW) t) @ '' minutes'')\<rparr>) ts,
            ?st5)"
    by simp
  have hint: "\<forall>t \<in> set ts. 0 \<le> retry_minutes (t1 + RATE_LIMIT_WINDOW) t \<and>
                        retry_minutes (t1 + RATE_LIMIT_WINDOW) t * 60000 \<le> RATE_LIMIT_WINDOW"
    using assms(6) retry_minutes_bound by blast
  have a: "map allowed (fst (check_all email [t1, t2, t3, t4, t5] store)) = [True, True, True, True, True]"
    by (simp del: check_all.simps add: five)
  have b: "snd (check_all email [t1, t2, t3, t4, t5] store) email
           = Some \<lparr>count = MAX_REQUESTS_PER_HOUR, resetAt = t1 + RATE_LIMIT_WINDOW\<rparr>"
    by (simp del: check_all.simps add: five MAX_REQUESTS_PER_HOUR_def)
  have c: "map allowed (fst (check_all email ts (snd (check_all email [t1, t2, t3, t4, t5] store))))
           = replicate (length ts) False"
    by (simp del: check_all.simps add: five rest map_replicate_const comp_def)
  have d: "map rate_message (fst (check_all email ts (snd (check_all email [t1, t2, t3, t4, t5] store))))
           = map (\<lambda>t. Some (''Too many requests. Try again after ''
                   @ string_of_int (retry_minutes (t1 + RATE_LIMIT_WINDOW) t) @ '' minutes'')) ts"
    by (simp del: check_all.simps add: five rest comp_def)
  have e: "snd (check_all email ts (snd (check_all email [t1, t2, t3, t4, t5] store)))
           = snd (check_all email [t1, t2, t3, t4, t5] store)"
    by (simp del: check_all.simps add: five rest)
  from a b c d e hint show ?thesis by (intro conjI)
qed

text \<open>
  At a concrete input: the address b@x.com used up its previous window, which ended at
  1000 ms; requests at 2000, 2001, 2002, 2003 and 3602000 ms are allowed, and the ones at
  2000 ms and 3602000 ms (the first and the last instant of the new window) that follow are
  denied with hints of 60 and 0 minutes.
\<close>

theorem checkRateLimit_window_witness:
  "map allowed (fst (check_all ''b@x.com'' [2000, 2001, 2002, 2003, 3602000]
                      [''b@x.com'' \<mapsto> \<lparr>count = 5, resetAt = 1000\<rparr>]))
     = [True, True, True, True, True] \<and>
   snd (check_all ''b@x.com'' [2000, 2001, 2002, 2003, 3602000]
          [''b@x.com'' \<mapsto> \<lparr>count = 5, resetAt = 1000\<rparr>]) ''b@x.com''
     = Some \<lparr>count = 5, resetAt = 3602000\<rparr> \<and>
   map allowed (fst (check_all ''b@x.com'' [2000, 3602000]
                      (snd (check_all ''b@x.com'' [2000, 2001, 2002, 2003, 3602000]
                              [''b@x.com'' \<mapsto> \<lparr>count = 5, resetAt = 1000\<rparr>]))))
     = [False, False] \<and>
   map rate_message (fst (check_all ''b@x.com'' [2000, 3602000]
                      (snd (check_all ''b@x.com'' [2000, 2001, 2002, 2003, 3602000]
                              [''b@x.com'' \<mapsto> \<lparr>count = 5, resetAt = 1000\<rparr>]))))
     = [Some ''Too many requests. Try again after 60 minutes'',
        Some ''Too many requests. Try again after 0 minutes''] \<and>
   snd (check_all ''b@x.com'' [2000, 3602000]
          (snd (check_all ''b@x.com'' [2000, 2001, 2002, 2003, 3602000]
                  [''b@x.com'' \<mapsto> \<lparr>count = 5, resetAt = 1000\<rparr>]))) ''b@x.com''
     = Some \<lparr>count = 5, resetAt = 3602000\<rparr>"
  using checkRateLimit_window[of "[''b@x.com'' \<mapsto> \<lparr>count = 5, resetAt = 1000\<rparr>]" "''b@x.com''"
      2000 2001 2002 2003 3602000 "[2000, 3602000]"]
  by (simp add: RATE_LIMIT_WINDOW_def MAX_REQUESTS_PER_HOUR_def retry_minutes_def
      string_of_int_def digit_char_def)

text \<open>
  Claim C10 as stated fails in its expiry clause: \<open>storeOTP\<close> reads the clock once for
  \<open>createdAt\<close> and once more for \<open>expiresAt\<close>. When the two readings are 1000 and
  1007 ms, the entry is created at 1000 and expires at 301007, which is 300007 ms after its
  creation time, not five minutes.
\<close>

theorem storeOTP_expiry_from_second_clock_read_counterexample:
  "map_option (\<lambda>e. (createdAt e, expiresAt e, expiresAt e - createdAt e))
     (storeOTP ''a@x.com'' ''123456'' 1000 1007 Map.empty ''a@x.com'')
     = Some (1000, 301007, 300007) \<and>
   map_option (\<lambda>e. expiresAt e = createdAt e + 5 * 60 * 1000)
     (storeOTP ''a@x.com'' ''123456'' 1000 1007 Map.empty ''a@x.com'')
     = Some False"
  by (simp add: storeOTP_def OTP_EXPIRY_def)

text \<open>
  Claim C10, amended. \<open>storeOTP\<close> overwrites whatever entry the address had: afterwards
  the entry holds the new code, zero attempts, the first clock reading as creation time and
  the second clock reading plus five minutes as expiry. The expiry is the creation time plus
  five minutes when both readings of the clock agree, and is not earlier than that when the
  clock does not run backwards between them. A value different from the new code no longer
  verifies (so the code issued before is invalid unless it is the same value), and the new
  code verifies at any time up to the expiry whatever number of failed attempts the address
  had accumulated.
\<close>

theorem storeOTP_overwrites:
  "storeOTP email code now1 now2 store email
     = Some \<lparr>otp = code, attempts = 0, createdAt = now1, expiresAt = now2 + 5 * 60 * 1000\<rparr> \<and>
   (now1 = now2 \<longrightarrow>
      map_option expiresAt (storeOTP email code now1 now2 store email)
        = map_option (\<lambda>e. createdAt e + 5 * 60 * 1000) (storeOTP email code now1 now2 store email)) \<and>
   (now1 \<le> now2 \<longrightarrow>
      map_option (\<lambda>e. createdAt e + 5 * 60 * 1000 \<le> expiresAt e)
        (storeOTP email code now1 now2 store email) = Some True) \<and>
   (old \<noteq> code \<longrightarrow>
      \<not> success (fst (verifyOTP email old now (storeOTP email code now1 now2 store)))) \<and>
   (now \<le> now2 + 5 * 60 * 1000 \<longrightarrow>
      verifyOTP email code now (storeOTP email code now1 now2 store)
        = (\<lparr>success = True, message = ''OTP verified successfully''\<rparr>, store(email := None)))"
  by (simp add: storeOTP_def OTP_EXPIRY_def verifyOTP_def MAX_ATTEMPTS_def Let_def)

text \<open>
  At a concrete input: a@x.com holds the code 111111 with three failed attempts; 222222 is
  stored at 1000 ms; then 111111 fails and 222222 verifies at 2000 ms.
\<close>

theorem storeOTP_overwrites_witness:
  "storeOTP ''a@x.com'' ''222222'' 1000 1000
       [''a@x.com'' \<mapsto> \<lparr>otp = ''111111'', attempts = 3, createdAt = 0, expiresAt = 300000\<rparr>]
       ''a@x.com''
     = Some \<lparr>otp = ''222222'', attempts = 0, createdAt = 1000, expiresAt = 301000\<rparr> \<and>
   \<not> success (fst (verifyOTP ''a@x.com'' ''111111'' 2000
       (storeOTP ''a@x.com'' ''222222'' 1000 1000
          [''a@x.com'' \<mapsto> \<lparr>otp = ''111111'', attempts = 3, createdAt = 0, expiresAt = 300000\<rparr>]))) \<and>
   success (fst (verifyOTP ''a@x.com'' ''222222'' 2000
       (storeOTP ''a@x.com'' ''222222'' 1000 1000
          [''a@x.com'' \<mapsto> \<lparr>otp = ''111111'', attempts = 3, createdAt = 0, expiresAt = 300000\<rparr>])))"
  using storeOTP_overwrites[of "''a@x.com''" "''222222''" 1000 1000
      "[''a@x.com'' \<mapsto> \<lparr>otp = ''111111'', attempts = 3, createdAt = 0, expiresAt = 300000\<rparr>]"
      "''111111''" 2000]
  by simp

lemma js_lt_NaN_right [simp]: "js_lt x NaN = False"
  by (cases x) simp_all

lemma js_lt_asym: "js_lt a b \<Longrightarrow> \<not> js_lt b a"
  by (cases a; cases b) simp_all

lemma js_le_lt_trans: "\<not> js_lt b a \<Longrightarrow> js_lt b c \<Longrightarrow> a \<noteq> NaN \<Longrightarrow> js_lt a c"
  by (cases a; cases b; cases c) simp_all

lemma js_lt_le_trans: "js_lt a b \<Longrightarrow> \<not> js_lt c b \<Longrightarrow> c \<noteq> NaN \<Longrightarrow> js_lt a c"
  by (cases a; cases b; cases c) simp_all

lemma js_le_trans: "\<not> js_lt b a \<Longrightarrow> \<not> js_lt c b \<Longrightarrow> b \<noteq> NaN \<Longrightarrow> \<not> js_lt c a"
  by (cases a; cases b; cases c) simp_all

text \<open>Once \<open>minDistance\<close> is NaN no later station replaces the kept one.\<close>

lemma nearest_loop_NaN:
  "nearest_loop m lat lon s0 NaN rest = (s0, NaN)"
  by (induction rest) (simp_all add: Let_def)

text \<open>
  From a first distance that is a number, the loop returns a station of least distance among
  those whose distance is a number, the first such in list order.
\<close>

lemma nearest_loop_spec:
  assumes "nearest_loop m lat lon s0 d0 rest = (st, d)"
    and "d0 = calculateDistance m lat lon (ps_latitude s0) (ps_longitude s0)"
    and "d0 \<noteq> NaN"
  shows "st \<in> set (s0 # rest) \<and>
         d = calculateDistance m lat lon (ps_latitude st) (ps_longitude st) \<and>
         d \<noteq> NaN \<and>
         (\<forall>s \<in> set (s0 # rest). \<not> js_lt (calculateDistance m lat lon (ps_latitude s) (ps_longitude s)) d) \<and>
         (\<exists>pre post. s0 # rest = pre @ st # post \<and>
            (\<forall>s \<in> set pre. calculateDistance m lat lon (ps_latitude s) (ps_longitude s) = NaN \<or>
                js_lt d (calculateDistance m lat lon (ps_latitude s) (ps_longitude s))))"
  using assms
proof (induction rest arbitrary: s0 d0)
  case Nil
  then have eq: "st = s0" "d = calculateDistance m lat lon (ps_latitude s0) (ps_longitude s0)"
    and nn: "d \<noteq> NaN"
    by auto
  have irr: "\<not> js_lt d d" by (cases d) simp_all
  have "[s0] = [] @ s0 # []" by simp
  then have "\<exists>pre post. [s0] = pre @ s0 # post \<and>
      (\<forall>s \<in> set pre. calculateDistance m lat lon (ps_latitude s) (ps_longitude s) = NaN \<or>
          js_lt d (calculateDistance m lat lon (ps_latitude s) (ps_longitude s)))"
    by fastforce
  with eq nn irr show ?case by simp
next
  case (Cons x rest)
  let ?dx = "calculateDistance m lat lon (ps_latitude x) (ps_longitude x)"
  note d0 = \<open>d0 = calculateDistance m lat lon (ps_latitude s0) (ps_longitude s0)\<close>
  show ?case
  proof (cases "js_lt ?dx d0")
    case True
    then have dxn: "?dx \<noteq> NaN" by (cases ?dx) simp_all
    from True Cons.prems have run: "nearest_loop m lat lon x ?dx rest = (st, d)"
      by (simp add: Let_def)
    from Cons.IH[OF run refl dxn]
    have mem: "st \<in> set (x # rest)"
      and dst: "d = calculateDistance m lat lon (ps_latitude st) (ps_longitude st)"
      and nn: "d \<noteq> NaN"
      and low: "\<forall>s \<in> set (x # rest). \<not> js_lt (calculateDistance m lat lon (ps_latitude s) (ps_longitude s)) d"
      and split: "\<exists>pre post. x # rest = pre @ st # post \<and>
            (\<forall>s \<in> set pre. calculateDistance m lat lon (ps_latitude s) (ps_longitude s) = NaN \<or>
                js_lt d (calculateDistance m lat lon (ps_latitude s) (ps_longitude s)))"
      by blast+
    from low have "\<not> js_lt ?dx d" by simp
    from this True nn have lt0: "js_lt d d0" by (rule js_le_lt_trans)
    then have ge0: "\<not> js_lt d0 d" by (rule js_lt_asym)
    from split obtain pre post where sp: "x # rest = pre @ st # post"
      and before: "\<forall>s \<in> set pre. calculateDistance m lat lon (ps_latitude s) (ps_longitude s) = NaN \<or>
                js_lt d (calculateDistance m lat lon (ps_latitude s) (ps_longitude s))"
      by blast
    have "s0 # x # rest = (s0 # pre) @ st # post" using sp by simp
    moreover have "\<forall>s \<in> set (s0 # pre). calculateDistance m lat lon (ps_latitude s) (ps_longitude s) = NaN \<or>
                js_lt d (calculateDistance m lat lon (ps_latitude s) (ps_longitude s))"
      using before lt0 d0 by simp
    ultimately have "\<exists>pre post. s0 # x # rest = pre @ st # post \<and>
            (\<forall>s \<in> set pre. calculateDistance m lat lon (ps_latitude s) (ps_longitude s) = NaN \<or>
                js_lt d (calculateDistance m lat lon (ps_latitude s) (ps_longitude s)))"
      by blast
    moreover have "\<forall>s \<in> set (s0 # x # rest). \<not> js_lt (calculateDistance m lat lon (ps_latitude s) (ps_longitude s)) d"
      using low ge0 d0 by simp
    moreover have "st \<in> set (s0 # x # rest)" using mem by auto
    ultimately show ?thesis using dst nn by simp
  next
    case False
    with Cons.prems have run: "nearest_loop m lat lon s0 d0 rest = (st, d)"
      by (simp add: Let_def)
    from Cons.IH[OF run d0 Cons.prems(3)]
    have mem: "st \<in> set (s0 # rest)"
      and dst: "d = calculateDistance m lat lon (ps_latitude st) (ps_longitude st)"
      and nn: "d \<noteq> NaN"
      and low: "\<forall>s \<in> set (s0 # rest). \<not> js_lt (calculateDistance m lat lon (ps_latitude s) (ps_longitude s)) d"
      and split: "\<exists>pre post. s0 # rest = pre @ st # post \<and>
            (\<forall>s \<in> set pre. calculateDistance m lat lon (ps_latitude s) (ps_longitude s) = NaN \<or>
                js_lt d (calculateDistance m lat lon (ps_latitude s) (ps_longitude s)))"
      by blast+
    from low have le0: "\<not> js_lt d0 d" using d0 by simp
    from le0 False Cons.prems(3) have dx: "\<not> js_lt ?dx d" by (rule js_le_trans)
    from split obtain pre post where sp: "s0 # rest = pre @ st # post"
      and before: "\<forall>s \<in> set pre. calculateDistance m lat lon (ps_latitude s) (ps_longitude s) = NaN \<or>
                js_lt d (calculateDistance m lat lon (ps_latitude s) (ps_longitude s))"
      by blast
    have "\<exists>pre' post'. s0 # x # rest = pre' @ st # post' \<and>
            (\<forall>s \<in> set pre'. calculateDistance m lat lon (ps_latitude s) (ps_longitude s) = NaN \<or>
                js_lt d (calculateDistance m lat lon (ps_latitude s) (ps_longitude s)))"
    proof (cases pre)
      case Nil
      with sp have "s0 = st" by simp
      then have "s0 # x # rest = [] @ st # (x # rest)" by simp
      then show ?thesis by fastforce
    next
      case (Cons p pre')
      with sp have p: "p = s0" and r: "rest = pre' @ st # post" by simp_all
      from before Cons p d0 Cons.prems(3) have b0: "js_lt d d0" by simp
      have dxs: "?dx = NaN \<or> js_lt d ?dx"
      proof (cases "?dx = NaN")
        case True
        then show ?thesis by simp
      next
        case nx: False
        from b0 False nx have "js_lt d ?dx" by (rule js_lt_le_trans)
        then show ?thesis by simp
      qed
      have "s0 # x # rest = (s0 # x # pre') @ st # post" using r by simp
      moreover have "\<forall>s \<in> set (s0 # x # pre'). calculateDistance m lat lon (ps_latitude s) (ps_longitude s) = NaN \<or>
                js_lt d (calculateDistance m lat lon (ps_latitude s) (ps_longitude s))"
        using before Cons p dxs by simp
      ultimately show ?thesis by blast
    qed
    moreover have "\<forall>s \<in> set (s0 # x # rest). \<not> js_lt (calculateDistance m lat lon (ps_latitude s) (ps_longitude s)) d"
      using low dx by simp
    moreover have "st \<in> set (s0 # x # rest)" using mem by auto
    ultimately show ?thesis using dst nn by simp
  qed
qed

text \<open>The haversine term lies between 0 and 1 for all angles, so both square roots are of non-negative numbers.\<close>

lemma haversine_range:
  fixes p1 p2 l :: real
  defines "a \<equiv> sin ((p2 - p1) / 2) * sin ((p2 - p1) / 2) + cos p1 * cos p2 * sin (l / 2) * sin (l / 2)"
  shows "0 \<le> a \<and> a \<le> 1"
proof -
  let ?s = "(sin (l / 2))\<^sup>2"
  have s: "0 \<le> ?s" "?s \<le> 1" by (simp_all add: abs_square_le_1)
  have cc: "cos p1 * cos p2 = (cos (p2 - p1) + cos (p1 + p2)) / 2"
    by (simp add: cos_diff cos_add)
  have h1: "2 * ((p2 - p1) / 2) = p2 - p1" and h2: "2 * ((p1 + p2) / 2) = p1 + p2"
    by simp_all
  have e1: "cos (p2 - p1) = 1 - 2 * (sin ((p2 - p1) / 2))\<^sup>2"
    by (rule cos_double_sin[of "(p2 - p1) / 2", unfolded h1])
  have e2: "cos (p1 + p2) = 2 * (cos ((p1 + p2) / 2))\<^sup>2 - 1"
    by (rule cos_double_cos[of "(p1 + p2) / 2", unfolded h2])
  let ?u = "(sin ((p2 - p1) / 2))\<^sup>2"
  let ?v = "(cos ((p1 + p2) / 2))\<^sup>2"
  have u: "0 \<le> ?u" "?u \<le> 1" by (simp_all add: abs_square_le_1)
  have v: "0 \<le> ?v" "?v \<le> 1" by (simp_all add: abs_square_le_1)
  have a: "a = ?u * (1 - ?s) + ?v * ?s"
    unfolding a_def cc e1 e2 by (simp add: power2_eq_square field_simps)
  have "0 \<le> ?u * (1 - ?s)" "0 \<le> ?v * ?s" using u v s by simp_all
  then have lo: "0 \<le> a" unfolding a by linarith
  have "?u * (1 - ?s) \<le> 1 * (1 - ?s)" using u s by (intro mult_right_mono) simp_all
  then have b1: "?u * (1 - ?s) \<le> 1 - ?s" by simp
  have "?v * ?s \<le> 1 * ?s" using v s by (intro mult_right_mono) simp_all
  then have b2: "?v * ?s \<le> ?s" by simp
  from b1 b2 have "a \<le> 1" unfolding a by linarith
  with lo show ?thesis by simp
qed

lemma atan2_sqrt:
  assumes "0 \<le> a" "a \<le> 1"
  shows "atan2 (sqrt a) (sqrt (1 - a)) = arcsin (sqrt a)"
proof (cases "a = 1")
  case True
  then show ?thesis by (simp add: atan2_def)
next
  case False
  with assms have lt: "a < 1" by simp
  then have pos: "0 < sqrt (1 - a)" by simp
  have r: "-1 < sqrt a" "sqrt a < 1"
    using assms lt by (simp_all add: less_le_trans[of "-1" 0] real_sqrt_lt_1_iff)
  have "arcsin (sqrt a) = arctan (sqrt a / sqrt (1 - (sqrt a)\<^sup>2))"
    using r by (rule arcsin_arctan)
  also have "(sqrt a)\<^sup>2 = a" using assms by simp
  finally show ?thesis using pos by (simp add: atan2_def)
qed

lemma real_arith_Num:
  "f_add real_arith (Num a) (Num b) = Num (a + b)"
  "f_sub real_arith (Num a) (Num b) = Num (a - b)"
  "f_mul real_arith (Num a) (Num b) = Num (a * b)"
  "f_div real_arith (Num a) (Num 2) = Num (a / 2)"
  "f_sin real_arith (Num a) = Num (sin a)"
  "f_cos real_arith (Num a) = Num (cos a)"
  "f_sqrt real_arith (Num a) = (if a < 0 then NaN else Num (sqrt a))"
  "f_atan2 real_arith (Num a) (Num b) = Num (atan2 a b)"
  by (simp_all add: real_arith_def lift2_def)

lemma toRad_real_arith:
  "toRad real_arith (Num x) = Num (x * (pi / 180))"
  by (simp add: toRad_def real_arith_def lift2_def)

text \<open>
  Without rounding the computation is the haversine distance on a sphere of radius 6371,
  the degrees multiplied by \<open>\<pi> / 180\<close>, and it is a number for all coordinates.
\<close>

lemma calculateDistance_haversine:
  "calculateDistance real_arith lat1 lon1 lat2 lon2 =
     Num (6371 * (2 * arcsin (sqrt ((sin ((lat2 - lat1) * (pi / 180) / 2))\<^sup>2 +
        cos (lat1 * (pi / 180)) * cos (lat2 * (pi / 180)) *
        (sin ((lon2 - lon1) * (pi / 180) / 2))\<^sup>2))))"
proof -
  let ?a = "sin ((lat2 - lat1) * (pi / 180) / 2) * sin ((lat2 - lat1) * (pi / 180) / 2) +
              cos (lat1 * (pi / 180)) * cos (lat2 * (pi / 180)) *
              sin ((lon2 - lon1) * (pi / 180) / 2) * sin ((lon2 - lon1) * (pi / 180) / 2)"
  have d: "(lat2 - lat1) * (pi / 180) = lat2 * (pi / 180) - lat1 * (pi / 180)"
    by (simp only: left_diff_distrib)
  have rng: "0 \<le> ?a \<and> ?a \<le> 1"
    unfolding d by (rule haversine_range)
  then have at: "atan2 (sqrt ?a) (sqrt (1 - ?a)) = arcsin (sqrt ?a)"
    by (simp add: atan2_sqrt)
  have sq: "?a = (sin ((lat2 - lat1) * (pi / 180) / 2))\<^sup>2 +
        cos (lat1 * (pi / 180)) * cos (lat2 * (pi / 180)) * (sin ((lon2 - lon1) * (pi / 180) / 2))\<^sup>2"
    by (simp add: power2_eq_square)
  have n1: "\<not> ?a < 0" and n2: "\<not> 1 - ?a < 0" using rng by simp_all
  have "calculateDistance real_arith lat1 lon1 lat2 lon2 =
          Num (6371 * (2 * atan2 (sqrt ?a) (sqrt (1 - ?a))))"
    unfolding calculateDistance_def Let_def
    by (simp only: real_arith_Num toRad_real_arith if_False n1 n2)
  then have "calculateDistance real_arith lat1 lon1 lat2 lon2 = Num (6371 * (2 * arcsin (sqrt ?a)))"
    by (simp only: at)
  then show ?thesis by (simp only: sq)
qed

lemma filter_split:
  "filter P xs = pre @ y # post \<Longrightarrow>
     \<exists>pre' post'. xs = pre' @ y # post' \<and> filter P pre' = pre \<and> filter P post' = post"
proof (induction xs arbitrary: pre)
  case Nil
  then show ?case by simp
next
  case (Cons x xs)
  show ?case
  proof (cases "P x")
    case False
    with Cons.prems have "filter P xs = pre @ y # post" by simp
    from Cons.IH[OF this] obtain pre' post' where
      "xs = pre' @ y # post'" "filter P pre' = pre" "filter P post' = post" by blast
    with False have "x # xs = (x # pre') @ y # post' \<and> filter P (x # pre') = pre \<and> filter P post' = post"
      by simp
    then show ?thesis by blast
  next
    case True
    show ?thesis
    proof (cases pre)
      case Nil
      with True Cons.prems have "x = y" "filter P xs = post" by simp_all
      then have "x # xs = [] @ y # xs \<and> filter P [] = pre \<and> filter P xs = post"
        using Nil by simp
      then show ?thesis by blast
    next
      case (Cons p pre2)
      with True Cons.prems have px: "p = x" and rest: "filter P xs = pre2 @ y # post" by simp_all
      from Cons.IH[OF rest] obtain pre' post' where
        "xs = pre' @ y # post'" "filter P pre' = pre2" "filter P post' = post" by blast
      with True px Cons have "x # xs = (x # pre') @ y # post' \<and> filter P (x # pre') = pre \<and> filter P post' = post"
        by simp
      then show ?thesis by blast
    qed
  qed
qed

text \<open>
  Claim C6. The resolver is characterised for every coordinate, every station table and
  whatever the platform's arithmetic returns. It returns nothing exactly when the table has
  no active station. When the distance computed for the first active station is NaN, that
  station is returned, with the distance NaN, whatever the other stations are: no later
  distance compares below NaN. This is where the code leaves the claim; it happens in
  doubles when the haversine term rounds above 1, as for a station antipodal to the
  coordinate, the term not being clamped before \<open>Math.sqrt(1 - a)\<close>. When the first
  distance is a number, the result is an active station of the table with its computed
  distance, a number; no active station has a smaller computed distance; and every active
  station before it in the table has a greater one or NaN, so among several nearest
  stations the first in table order is returned. Without rounding the computed distance is
  the haversine distance \<open>6371 \<cdot> 2 \<cdot> arcsin (\<surd>h)\<close>, each angle in degrees multiplied by
  \<open>\<pi> / 180\<close>, and it is never NaN.
\<close>

theorem findNearestPoliceStation_first_distance_NaN:
  "(findNearestPoliceStation m lat lon stations = None \<longleftrightarrow> (\<forall>s \<in> set stations. \<not> ps_isActive s)) \<and>
   (\<forall>first rest. filter ps_isActive stations = first # rest \<longrightarrow>
      (if calculateDistance m lat lon (ps_latitude first) (ps_longitude first) = NaN
       then findNearestPoliceStation m lat lon stations = Some (first, NaN)
       else (\<exists>st d. findNearestPoliceStation m lat lon stations = Some (st, d) \<and>
               st \<in> set stations \<and> ps_isActive st \<and>
               d = calculateDistance m lat lon (ps_latitude st) (ps_longitude st) \<and>
               d \<noteq> NaN \<and>
               (\<forall>s \<in> set stations. ps_isActive s \<longrightarrow>
                  \<not> js_lt (calculateDistance m lat lon (ps_latitude s) (ps_longitude s)) d) \<and>
               (\<exists>pre post. stations = pre @ st # post \<and>
                  (\<forall>s \<in> set pre. ps_isActive s \<longrightarrow>
                     calculateDistance m lat lon (ps_latitude s) (ps_longitude s) = NaN \<or>
                     js_lt d (calculateDistance m lat lon (ps_latitude s) (ps_longitude s))))))) \<and>
   calculateDistance real_arith lat lon lat2 lon2 =
     Num (6371 * (2 * arcsin (sqrt ((sin ((lat2 - lat) * (pi / 180) / 2))\<^sup>2 +
        cos (lat * (pi / 180)) * cos (lat2 * (pi / 180)) *
        (sin ((lon2 - lon) * (pi / 180) / 2))\<^sup>2))))"
proof -
  have none: "findNearestPoliceStation m lat lon stations = None \<longleftrightarrow>
                (\<forall>s \<in> set stations. \<not> ps_isActive s)"
  proof -
    have "findNearestPoliceStation m lat lon stations = None \<longleftrightarrow> filter ps_isActive stations = []"
      by (simp add: findNearestPoliceStation_def split: list.splits)
    then show ?thesis by (simp add: filter_empty_conv)
  qed
  have nan: "findNearestPoliceStation m lat lon stations = Some (first, NaN)"
    if act: "filter ps_isActive stations = first # rest"
      and d0: "calculateDistance m lat lon (ps_latitude first) (ps_longitude first) = NaN"
    for first rest
    by (simp add: findNearestPoliceStation_def act d0 nearest_loop_NaN)
  have num: "\<exists>st d. findNearestPoliceStation m lat lon stations = Some (st, d) \<and>
               st \<in> set stations \<and> ps_isActive st \<and>
               d = calculateDistance m lat lon (ps_latitude st) (ps_longitude st) \<and>
               d \<noteq> NaN \<and>
               (\<forall>s \<in> set stations. ps_isActive s \<longrightarrow>
                  \<not> js_lt (calculateDistance m lat lon (ps_latitude s) (ps_longitude s)) d) \<and>
               (\<exists>pre post. stations = pre @ st # post \<and>
                  (\<forall>s \<in> set pre. ps_isActive s \<longrightarrow>
                     calculateDistance m lat lon (ps_latitude s) (ps_longitude s) = NaN \<or>
                     js_lt d (calculateDistance m lat lon (ps_latitude s) (ps_longitude s))))"
    if act: "filter ps_isActive stations = first # rest"
      and d0: "calculateDistance m lat lon (ps_latitude first) (ps_longitude first) \<noteq> NaN"
    for first rest
  proof -
    obtain st d where run: "nearest_loop m lat lon first
                  (calculateDistance m lat lon (ps_latitude first) (ps_longitude first)) rest = (st, d)"
      by (cases "nearest_loop m lat lon first
                  (calculateDistance m lat lon (ps_latitude first) (ps_longitude first)) rest") blast
    have res: "findNearestPoliceStation m lat lon stations = Some (st, d)"
      by (simp add: findNearestPoliceStation_def act run)
    from nearest_loop_spec[OF run refl d0]
    have mem: "st \<in> set (first # rest)"
      and dst: "d = calculateDistance m lat lon (ps_latitude st) (ps_longitude st)"
      and nn: "d \<noteq> NaN"
      and low: "\<forall>s \<in> set (first # rest). \<not> js_lt (calculateDistance m lat lon (ps_latitude s) (ps_longitude s)) d"
      and split: "\<exists>pre post. first # rest = pre @ st # post \<and>
            (\<forall>s \<in> set pre. calculateDistance m lat lon (ps_latitude s) (ps_longitude s) = NaN \<or>
                js_lt d (calculateDistance m lat lon (ps_latitude s) (ps_longitude s)))"
      by blast+
    have set_act: "set (first # rest) = {s \<in> set stations. ps_isActive s}"
      using act by (metis set_filter)
    from mem set_act have ms: "st \<in> set stations" and ma: "ps_isActive st" by auto
    from low set_act have l: "\<forall>s \<in> set stations. ps_isActive s \<longrightarrow>
         \<not> js_lt (calculateDistance m lat lon (ps_latitude s) (ps_longitude s)) d" by auto
    from split obtain pre post where sp: "first # rest = pre @ st # post"
      and before: "\<forall>s \<in> set pre. calculateDistance m lat lon (ps_latitude s) (ps_longitude s) = NaN \<or>
                js_lt d (calculateDistance m lat lon (ps_latitude s) (ps_longitude s))"
      by blast
    from filter_split[of ps_isActive stations pre st post] act sp
    obtain pre' post' where sp': "stations = pre' @ st # post'" and fp: "filter ps_isActive pre' = pre"
      by auto
    have "\<forall>s \<in> set pre'. ps_isActive s \<longrightarrow>
            calculateDistance m lat lon (ps_latitude s) (ps_longitude s) = NaN \<or>
            js_lt d (calculateDistance m lat lon (ps_latitude s) (ps_longitude s))"
      using before fp by auto
    with sp' have f: "\<exists>pre post. stations = pre @ st # post \<and>
         (\<forall>s \<in> set pre. ps_isActive s \<longrightarrow>
            calculateDistance m lat lon (ps_latitude s) (ps_longitude s) = NaN \<or>
            js_lt d (calculateDistance m lat lon (ps_latitude s) (ps_longitude s)))"
      by blast
    from res ms ma dst nn l f show ?thesis by blast
  qed
  have both: "\<forall>first rest. filter ps_isActive stations = first # rest \<longrightarrow>
      (if calculateDistance m lat lon (ps_latitude first) (ps_longitude first) = NaN
       then findNearestPoliceStation m lat lon stations = Some (first, NaN)
       else (\<exists>st d. findNearestPoliceStation m lat lon stations = Some (st, d) \<and>
               st \<in> set stations \<and> ps_isActive st \<and>
               d = calculateDistance m lat lon (ps_latitude st) (ps_longitude st) \<and>
               d \<noteq> NaN \<and>
               (\<forall>s \<in> set stations. ps_isActive s \<longrightarrow>
                  \<not> js_lt (calculateDistance m lat lon (ps_latitude s) (ps_longitude s)) d) \<and>
               (\<exists>pre post. stations = pre @ st # post \<and>
                  (\<forall>s \<in> set pre. ps_isActive s \<longrightarrow>
                     calculateDistance m lat lon (ps_latitude s) (ps_longitude s) = NaN \<or>
                     js_lt d (calculateDistance m lat lon (ps_latitude s) (ps_longitude s))))))"
  proof (intro allI impI)
    fix first rest
    assume act: "filter ps_isActive stations = first # rest"
    show "if calculateDistance m lat lon (ps_latitude first) (ps_longitude first) = NaN
       then findNearestPoliceStation m lat lon stations = Some (first, NaN)
       else (\<exists>st d. findNearestPoliceStation m lat lon stations = Some (st, d) \<and>
               st \<in> set stations \<and> ps_isActive st \<and>
               d = calculateDistance m lat lon (ps_latitude st) (ps_longitude st) \<and>
               d \<noteq> NaN \<and>
               (\<forall>s \<in> set stations. ps_isActive s \<longrightarrow>
                  \<not> js_lt (calculateDistance m lat lon (ps_latitude s) (ps_longitude s)) d) \<and>
               (\<exists>pre post. stations = pre @ st # post \<and>
                  (\<forall>s \<in> set pre. ps_isActive s \<longrightarrow>
                     calculateDistance m lat lon (ps_latitude s) (ps_longitude s) = NaN \<or>
                     js_lt d (calculateDistance m lat lon (ps_latitude s) (ps_longitude s)))))"
    proof (cases "calculateDistance m lat lon (ps_latitude first) (ps_longitude first) = NaN")
      case True
      with nan[OF act True] show ?thesis by simp
    next
      case False
      from num[OF act False] show ?thesis by (simp only: False if_False)
    qed
  qed
  from none both calculateDistance_haversine[of lat lon lat2 lon2] show ?thesis
    by (intro conjI)
qed

text \<open>
  At concrete inputs. First the failing run: the coordinate (12, 77), and a table that holds
  an active station at the antipode (-12, -103) and then an active station at the coordinate
  itself. The arithmetic is exact but for its sums, which come out one unit in the last place
  (\<open>2\<^sup>-\<^sup>5\<^sup>2\<close>) too high; the haversine term of the first station is then
  \<open>1 + 2\<^sup>-\<^sup>5\<^sup>2\<close>, which is the double 1.0000000000000002, its distance is NaN, and it
  is the station returned, although the distance computed for the second station is a
  number. Then, without rounding, the coordinate (0, 0) and four stations: one inactive at
  (0, 0), one active at (0, 180), and two active at (0, 0); the third row is returned, at
  distance 0. A table with no active station gives nothing.
\<close>

theorem findNearestPoliceStation_first_distance_NaN_witness:
  "findNearestPoliceStation
     (real_arith\<lparr>f_add := \<lambda>x y. f_add real_arith (f_add real_arith x y) (Num (1 / 2 ^ 52))\<rparr>) 12 77
     [\<lparr>ps_id = ''s1'', ps_name = ''A'', ps_latitude = - 12, ps_longitude = - 103, ps_isActive = True\<rparr>,
      \<lparr>ps_id = ''s2'', ps_name = ''B'', ps_latitude = 12, ps_longitude = 77, ps_isActive = True\<rparr>]
     = Some (\<lparr>ps_id = ''s1'', ps_name = ''A'', ps_latitude = - 12, ps_longitude = - 103, ps_isActive = True\<rparr>, NaN) \<and>
   (\<exists>x. calculateDistance
     (real_arith\<lparr>f_add := \<lambda>x y. f_add real_arith (f_add real_arith x y) (Num (1 / 2 ^ 52))\<rparr>) 12 77 12 77
     = Num x) \<and>
   findNearestPoliceStation real_arith 0 0
     [\<lparr>ps_id = ''s1'', ps_name = ''A'', ps_latitude = 0, ps_longitude = 0, ps_isActive = False\<rparr>,
      \<lparr>ps_id = ''s2'', ps_name = ''B'', ps_latitude = 0, ps_longitude = 180, ps_isActive = True\<rparr>,
      \<lparr>ps_id = ''s3'', ps_name = ''C'', ps_latitude = 0, ps_longitude = 0, ps_isActive = True\<rparr>,
      \<lparr>ps_id = ''s4'', ps_name = ''D'', ps_latitude = 0, ps_longitude = 0, ps_isActive = True\<rparr>]
     = Some (\<lparr>ps_id = ''s3'', ps_name = ''C'', ps_latitude = 0, ps_longitude = 0, ps_isActive = True\<rparr>, Num 0) \<and>
   calculateDistance real_arith 0 0 0 180 = Num (6371 * pi) \<and>
   findNearestPoliceStation real_arith 0 0
     [\<lparr>ps_id = ''s1'', ps_name = ''A'', ps_latitude = 0, ps_longitude = 0, ps_isActive = False\<rparr>]
     = None"
proof -
  let ?up = "real_arith\<lparr>f_add := \<lambda>x y. f_add real_arith (f_add real_arith x y) (Num (1 / 2 ^ 52))\<rparr>"
  let ?P = "\<lparr>ps_id = ''s1'', ps_name = ''A'', ps_latitude = - 12, ps_longitude = - 103, ps_isActive = True\<rparr>"
  let ?Q = "\<lparr>ps_id = ''s2'', ps_name = ''B'', ps_latitude = 12, ps_longitude = 77, ps_isActive = True\<rparr>"
  let ?A = "\<lparr>ps_id = ''s1'', ps_name = ''A'', ps_latitude = 0, ps_longitude = 0, ps_isActive = False\<rparr>"
  let ?B = "\<lparr>ps_id = ''s2'', ps_name = ''B'', ps_latitude = 0, ps_longitude = 180, ps_isActive = True\<rparr>"
  let ?C = "\<lparr>ps_id = ''s3'', ps_name = ''C'', ps_latitude = 0, ps_longitude = 0, ps_isActive = True\<rparr>"
  let ?D = "\<lparr>ps_id = ''s4'', ps_name = ''D'', ps_latitude = 0, ps_longitude = 0, ps_isActive = True\<rparr>"
  have up: "\<And>a b. f_add ?up (Num a) (Num b) = Num (a + b + 1 / 2 ^ 52)"
    "\<And>a b. f_sub ?up (Num a) (Num b) = Num (a - b)"
    "\<And>a b. f_mul ?up (Num a) (Num b) = Num (a * b)"
    "\<And>a. f_mul ?up (Num a) NaN = NaN"
    "\<And>a. f_div ?up (Num a) (Num 2) = Num (a / 2)"
    "\<And>a. f_sin ?up (Num a) = Num (sin a)"
    "\<And>a. f_cos ?up (Num a) = Num (cos a)"
    "\<And>a. f_sqrt ?up (Num a) = (if a < 0 then NaN else Num (sqrt a))"
    "\<And>a. f_atan2 ?up (Num a) NaN = NaN"
    "\<And>x. toRad ?up (Num x) = Num (x * (pi / 180))"
    by (simp_all add: real_arith_def lift2_def toRad_def)
  let ?h = "sin ((- 12 - 12) * (pi / 180) / 2) * sin ((- 12 - 12) * (pi / 180) / 2) +
            cos (12 * (pi / 180)) * cos (- 12 * (pi / 180)) *
            sin ((- 103 - 77) * (pi / 180) / 2) * sin ((- 103 - 77) * (pi / 180) / 2) + 1 / 2 ^ 52"
  have e1: "(- 12 - 12) * (pi / 180) / 2 = - (12 * (pi / 180))" by simp
  have e2: "(- 103 - 77) * (pi / 180) / 2 = - (pi / 2)" by simp
  have e3: "- 12 * (pi / 180) = - (12 * (pi / 180))" by simp
  have "(sin (12 * (pi / 180)))\<^sup>2 + (cos (12 * (pi / 180)))\<^sup>2 = 1"
    by (rule sin_cos_squared_add)
  then have h: "?h = 1 + 1 / 2 ^ 52"
    unfolding e1 e2 e3 by (simp add: power2_eq_square)
  have n1: "\<not> ?h < 0" and n2: "1 - ?h < 0" unfolding h by simp_all
  have far: "calculateDistance ?up 12 77 (- 12) (- 103) = NaN"
    unfolding calculateDistance_def Let_def
    by (simp only: up if_True if_False n1 n2)
  have near: "\<exists>x. calculateDistance ?up 12 77 12 77 = Num x"
    by (simp add: calculateDistance_def toRad_def real_arith_def lift2_def)
  have bug: "findNearestPoliceStation ?up 12 77 [?P, ?Q] = Some (?P, NaN)"
    using findNearestPoliceStation_first_distance_NaN[of ?up 12 77 "[?P, ?Q]"] far by simp
  have d0: "calculateDistance real_arith 0 0 0 0 = Num 0"
    by (simp add: calculateDistance_def toRad_def real_arith_def lift2_def atan2_def)
  have d180: "calculateDistance real_arith 0 0 0 180 = Num (6371 * pi)"
    by (simp add: calculateDistance_def toRad_def real_arith_def lift2_def atan2_def)
  have ev: "findNearestPoliceStation real_arith 0 0 [?A, ?B, ?C, ?D] = Some (?C, Num 0)"
    by (simp add: findNearestPoliceStation_def d0 d180)
  have none: "findNearestPoliceStation real_arith 0 0 [?A] = None"
    using findNearestPoliceStation_first_distance_NaN[of real_arith 0 0 "[?A]"] by simp
  from bug near ev d180 none show ?thesis by (intro conjI)
qed

lemma notifyPoliceStation_frame:
  "users (notifyPoliceStation p i dst d) = users d"
  "incidents (notifyPoliceStation p i dst d) = incidents d"
  "auditLogs (notifyPoliceStation p i dst d) = auditLogs d"
  "reports (notifyPoliceStation p i dst d) = reports d"
  "\<exists>ms. notifications (notifyPoliceStation p i dst d) = notifications d @ ms"
  by (simp_all add: notifyPoliceStation_def Let_def)

lemma resolve_station_frame:
  "users (snd (resolve_station m status i d)) = users d"
  "incidents (snd (resolve_station m status i d)) = incidents d"
  "auditLogs (snd (resolve_station m status i d)) = auditLogs d"
  "\<exists>ms. notifications (snd (resolve_station m status i d)) = notifications d @ ms"
  by (auto simp: resolve_station_def notifyPoliceStation_frame split: option.splits)

lemma find_map_update:
  assumes "find (\<lambda>r. key r = k) xs = Some r" "\<And>x. key (f x) = key x"
  shows "find (\<lambda>r. key r = k) (map (\<lambda>r. if key r = k then f r else r) xs) = Some (f r)"
  using assms by (induction xs) (auto split: if_splits)

lemma find_map_other:
  assumes "\<And>x. key (f x) = key x"
  shows "find (\<lambda>r. key r = k) (map (\<lambda>r. if P r then f r else r) xs) = None
           \<longleftrightarrow> find (\<lambda>r. key r = k) xs = None"
  using assms by (induction xs) auto

lemma update_credibility_ok:
  assumes pub: "find (\<lambda>u. usr_id u = inc_publisherId incident) (users d) = Some publisher"
    and v: "status = ''VERIFIED'' \<longrightarrow> int32 (usr_credibilityScore publisher + 2)"
    and r: "status = ''REJECTED'' \<longrightarrow> int32 (usr_credibilityScore publisher - 1)"
  shows "update_credibility status incident d =
           Inr (d\<lparr>users := map (\<lambda>u. if usr_id u = inc_publisherId incident
                          then u\<lparr>usr_credibilityScore := usr_credibilityScore u + (if status = ''VERIFIED'' then 2 else if status = ''REJECTED'' then - 1 else 0)\<rparr>
                          else u) (users d)\<rparr>)"
proof -
  consider "status = ''VERIFIED''" | "status = ''REJECTED''"
    | "status \<noteq> ''VERIFIED''" "status \<noteq> ''REJECTED''" by blast
  then show ?thesis
  proof cases
    case 1
    with pub v show ?thesis by (simp add: update_credibility_def user_update_def)
  next
    case 2
    with pub r show ?thesis by (simp add: update_credibility_def user_update_def)
  next
    case 3
    then show ?thesis by (simp add: update_credibility_def cong: if_cong)
  qed
qed

lemma update_credibility_out_of_range:
  assumes pub: "find (\<lambda>u. usr_id u = inc_publisherId incident) (users d) = Some publisher"
    and out: "(status = ''VERIFIED'' \<and> \<not> int32 (usr_credibilityScore publisher + 2)) \<or>
              (status = ''REJECTED'' \<and> \<not> int32 (usr_credibilityScore publisher - 1))"
  shows "update_credibility status incident d = Inl (PrismaError ''P2020'')"
  using out
proof
  assume "status = ''VERIFIED'' \<and> \<not> int32 (usr_credibilityScore publisher + 2)"
  with pub show ?thesis by (simp add: update_credibility_def user_update_def)
next
  assume "status = ''REJECTED'' \<and> \<not> int32 (usr_credibilityScore publisher - 1)"
  with pub show ?thesis by (simp add: update_credibility_def user_update_def)
qed

lemma incident_update_ok:
  assumes "incident_findUnique iid d = Some incident"
  shows "incident_update iid f d =
           Inr (f incident, d\<lparr>incidents := map (\<lambda>r. if inc_id r = iid then f r else r) (incidents d)\<rparr>)"
  using assms by (simp add: incident_update_def)

lemma put_incident_status_accepted:
  assumes st: "status \<in> set [''VERIFIED'', ''REJECTED'', ''TAKEN_DOWN'']"
    and inc: "incident_findUnique iid d = Some incident"
    and pub: "find (\<lambda>u. usr_id u = inc_publisherId incident) (users d) = Some publisher"
    and v: "status = ''VERIFIED'' \<longrightarrow> int32 (usr_credibilityScore publisher + 2)"
    and r: "status = ''REJECTED'' \<longrightarrow> int32 (usr_credibilityScore publisher - 1)"
    and mod: "user_exists d (req_userId req)"
  shows "\<exists>updated d'. put_incident_status m req iid status note now d = (Inr updated, d') \<and>
      inc_id updated = inc_id incident \<and>
      inc_status updated = status \<and>
      inc_verifiedBy updated = Some (req_userId req) \<and>
      inc_verifiedAt updated = Some now \<and>
      inc_verificationNote updated = set_column note (inc_verificationNote incident) \<and>
      incident_findUnique iid d' = Some updated \<and>
      users d' = map (\<lambda>u. if usr_id u = inc_publisherId incident
                          then u\<lparr>usr_credibilityScore := usr_credibilityScore u + (if status = ''VERIFIED'' then 2 else if status = ''REJECTED'' then - 1 else 0)\<rparr>
                          else u) (users d) \<and>
      auditLogs d' = auditLogs d @ [audit_entry req status note incident] \<and>
      (\<exists>ms. notifications d' = notifications d @ ms @ [publisher_notification status note incident])"
proof -
  obtain psid d1 where rs: "resolve_station m status incident d = (psid, d1)"
    by (cases "resolve_station m status incident d") auto
  from resolve_station_frame[of m status incident d] rs
  have f1: "users d1 = users d" "incidents d1 = incidents d" "auditLogs d1 = auditLogs d"
    and n1: "\<exists>ms. notifications d1 = notifications d @ ms"
    by simp_all
  let ?f = "\<lambda>i. i\<lparr>inc_status := status,
                   inc_verificationNote := set_column note (inc_verificationNote i),
                   inc_verifiedAt := Some now,
                   inc_verifiedBy := Some (req_userId req),
                   inc_policeStationId :=
                     (case truthy psid of None \<Rightarrow> inc_policeStationId i | Some p \<Rightarrow> Some p)\<rparr>"
  let ?d2 = "d1\<lparr>incidents := map (\<lambda>r. if inc_id r = iid then ?f r else r) (incidents d1)\<rparr>"
  let ?n = "publisher_notification status note incident"
  let ?d3 = "?d2\<lparr>notifications := notifications ?d2 @ [?n]\<rparr>"
  let ?d4 = "?d3\<lparr>users := map (\<lambda>u. if usr_id u = inc_publisherId incident
                          then u\<lparr>usr_credibilityScore := usr_credibilityScore u + (if status = ''VERIFIED'' then 2 else if status = ''REJECTED'' then - 1 else 0)\<rparr>
                          else u) (users ?d3)\<rparr>"
  let ?a = "audit_entry req status note incident"
  let ?d5 = "?d4\<lparr>auditLogs := auditLogs ?d4 @ [?a]\<rparr>"
  have inc1: "incident_findUnique iid d1 = Some incident"
    using inc f1(2) by (simp add: incident_findUnique_def)
  have s2: "incident_update iid ?f d1 = Inr (?f incident, ?d2)"
    using inc1 by (rule incident_update_ok)
  have pub2: "user_exists ?d2 (inc_publisherId incident)"
    using pub f1(1) by (simp add: user_exists_def)
  have pub3: "find (\<lambda>u. usr_id u = inc_publisherId incident) (users ?d3) = Some publisher"
    using pub f1(1) by simp
  have s3: "notification_create ?n ?d2 = Inr ?d3"
    using pub2 by (simp add: notification_create_def publisher_notification_def)
  have s4: "update_credibility status incident ?d3 = Inr ?d4"
    using update_credibility_ok[OF pub3 v r] by simp
  have "find (\<lambda>u. usr_id u = req_userId req) (users ?d4) = None
          \<longleftrightarrow> find (\<lambda>u. usr_id u = req_userId req) (users d) = None"
    using find_map_other[where f="\<lambda>u. u\<lparr>usr_credibilityScore := usr_credibilityScore u + (if status = ''VERIFIED'' then 2 else if status = ''REJECTED'' then - 1 else 0)\<rparr>"
        and key=usr_id and k="req_userId req" and P="\<lambda>u. usr_id u = inc_publisherId incident"
        and xs="users d"] f1(1)
    by simp
  then have mod4: "user_exists ?d4 (req_userId req)"
    using mod by (simp add: user_exists_def)
  have s5: "auditLog_create ?a ?d4 = Inr ?d5"
    using mod4 by (simp add: auditLog_create_def audit_entry_def)
  have run: "put_incident_status m req iid status note now d = (Inr (?f incident), ?d5)"
    using st inc rs s2 s3 s4 s5
    by (simp add: put_incident_status_def del: set_simps)
  have found: "incident_findUnique iid ?d5 = Some (?f incident)"
    using find_map_update[of inc_id iid "incidents d1" incident ?f] inc1
    by (simp add: incident_findUnique_def)
  from n1 obtain ms where ms: "notifications d1 = notifications d @ ms" by blast
  have nn: "\<exists>ms. notifications ?d5 = notifications d @ ms @ [?n]"
    using ms by simp
  show ?thesis
    using run found nn f1 by (intro exI[of _ "?f incident"] exI[of _ ?d5]) simp
qed

text \<open>
  When the score would leave the range of its column, the update of the score is refused:
  the answer is the store's error, after the status and the notification were written and
  before the audit entry.
\<close>

lemma put_incident_status_out_of_range:
  assumes st: "status \<in> set [''VERIFIED'', ''REJECTED'', ''TAKEN_DOWN'']"
    and inc: "incident_findUnique iid d = Some incident"
    and pub: "find (\<lambda>u. usr_id u = inc_publisherId incident) (users d) = Some publisher"
    and out: "(status = ''VERIFIED'' \<and> \<not> int32 (usr_credibilityScore publisher + 2)) \<or>
              (status = ''REJECTED'' \<and> \<not> int32 (usr_credibilityScore publisher - 1))"
  shows "\<exists>d'. put_incident_status m req iid status note now d = (Inl (PrismaError ''P2020''), d') \<and>
      map_option inc_status (incident_findUnique iid d') = Some status \<and>
      map_option inc_verifiedBy (incident_findUnique iid d') = Some (Some (req_userId req)) \<and>
      users d' = users d \<and>
      auditLogs d' = auditLogs d \<and>
      (\<exists>ms. notifications d' = notifications d @ ms @ [publisher_notification status note incident])"
proof -
  obtain psid d1 where rs: "resolve_station m status incident d = (psid, d1)"
    by (cases "resolve_station m status incident d") auto
  from resolve_station_frame[of m status incident d] rs
  have f1: "users d1 = users d" "incidents d1 = incidents d" "auditLogs d1 = auditLogs d"
    and n1: "\<exists>ms. notifications d1 = notifications d @ ms"
    by simp_all
  let ?f = "\<lambda>i. i\<lparr>inc_status := status,
                   inc_verificationNote := set_column note (inc_verificationNote i),
                   inc_verifiedAt := Some now,
                   inc_verifiedBy := Some (req_userId req),
                   inc_policeStationId :=
                     (case truthy psid of None \<Rightarrow> inc_policeStationId i | Some p \<Rightarrow> Some p)\<rparr>"
  let ?d2 = "d1\<lparr>incidents := map (\<lambda>r. if inc_id r = iid then ?f r else r) (incidents d1)\<rparr>"
  let ?n = "publisher_notification status note incident"
  let ?d3 = "?d2\<lparr>notifications := notifications ?d2 @ [?n]\<rparr>"
  have inc1: "incident_findUnique iid d1 = Some incident"
    using inc f1(2) by (simp add: incident_findUnique_def)
  have s2: "incident_update iid ?f d1 = Inr (?f incident, ?d2)"
    using inc1 by (rule incident_update_ok)
  have pub2: "user_exists ?d2 (inc_publisherId incident)"
    using pub f1(1) by (simp add: user_exists_def)
  have s3: "notification_create ?n ?d2 = Inr ?d3"
    using pub2 by (simp add: notification_create_def publisher_notification_def)
  have pub3: "find (\<lambda>u. usr_id u = inc_publisherId incident) (users ?d3) = Some publisher"
    using pub f1(1) by simp
  have s4: "update_credibility status incident ?d3 = Inl (PrismaError ''P2020'')"
    using pub3 out by (rule update_credibility_out_of_range)
  have run: "put_incident_status m req iid status note now d = (Inl (PrismaError ''P2020''), ?d3)"
    using st inc rs s2 s3 s4
    by (simp add: put_incident_status_def del: set_simps)
  have found: "incident_findUnique iid ?d3 = Some (?f incident)"
    using find_map_update[of inc_id iid "incidents d1" incident ?f] inc1
    by (simp add: incident_findUnique_def)
  from n1 obtain ms where ms: "notifications d1 = notifications d @ ms" by blast
  have nn: "\<exists>ms. notifications ?d3 = notifications d @ ms @ [?n]"
    using ms by simp
  show ?thesis
    using run found nn f1 by (intro exI[of _ ?d3]) simp
qed

lemma put_incident_status_Inr_D:
  assumes acc: "put_incident_status m req iid status note now d = (Inr updated, d')"
  shows "status \<in> set [''VERIFIED'', ''REJECTED'', ''TAKEN_DOWN''] \<and>
         (\<exists>incident publisher. incident_findUnique iid d = Some incident \<and>
            find (\<lambda>u. usr_id u = inc_publisherId incident) (users d) = Some publisher \<and>
            (status = ''VERIFIED'' \<longrightarrow> int32 (usr_credibilityScore publisher + 2)) \<and>
            (status = ''REJECTED'' \<longrightarrow> int32 (usr_credibilityScore publisher - 1)) \<and>
            user_exists d (req_userId req))"
proof -
  have st: "status \<in> set [''VERIFIED'', ''REJECTED'', ''TAKEN_DOWN'']"
  proof (rule ccontr)
    assume "\<not> ?thesis"
    then have "put_incident_status m req iid status note now d = (Inl (AppError ''Invalid status'' 400), d)"
      by (simp add: put_incident_status_def del: set_simps)
    with acc show False by simp
  qed
  obtain incident where inc: "incident_findUnique iid d = Some incident"
  proof (cases "incident_findUnique iid d")
    case None
    with st have "put_incident_status m req iid status note now d = (Inl (AppError ''Incident not found'' 404), d)"
      by (simp add: put_incident_status_def del: set_simps)
    with acc show ?thesis by simp
  next
    case (Some i)
    then show ?thesis using that by blast
  qed
  obtain psid d1 where rs: "resolve_station m status incident d = (psid, d1)"
    by (cases "resolve_station m status incident d") auto
  from resolve_station_frame[of m status incident d] rs
  have f1: "users d1 = users d" "incidents d1 = incidents d"
    by simp_all
  let ?f = "\<lambda>i. i\<lparr>inc_status := status,
                   inc_verificationNote := set_column note (inc_verificationNote i),
                   inc_verifiedAt := Some now,
                   inc_verifiedBy := Some (req_userId req),
                   inc_policeStationId :=
                     (case truthy psid of None \<Rightarrow> inc_policeStationId i | Some p \<Rightarrow> Some p)\<rparr>"
  let ?d2 = "d1\<lparr>incidents := map (\<lambda>r. if inc_id r = iid then ?f r else r) (incidents d1)\<rparr>"
  let ?n = "publisher_notification status note incident"
  let ?d3 = "?d2\<lparr>notifications := notifications ?d2 @ [?n]\<rparr>"
  let ?a = "audit_entry req status note incident"
  have inc1: "incident_findUnique iid d1 = Some incident"
    using inc f1(2) by (simp add: incident_findUnique_def)
  have s2: "incident_update iid ?f d1 = Inr (?f incident, ?d2)"
    using inc1 by (rule incident_update_ok)
  have pub: "user_exists d (inc_publisherId incident)"
  proof (rule ccontr)
    assume no: "\<not> ?thesis"
    then have "\<not> user_exists ?d2 (inc_publisherId incident)"
      using f1(1) by (simp add: user_exists_def)
    then have "notification_create ?n ?d2 = Inl (PrismaError ''P2003'')"
      by (simp add: notification_create_def publisher_notification_def)
    with st inc rs s2 have "put_incident_status m req iid status note now d = (Inl (PrismaError ''P2003''), ?d2)"
      by (simp add: put_incident_status_def del: set_simps)
    with acc show False by simp
  qed
  then have pub2: "user_exists ?d2 (inc_publisherId incident)"
    using f1(1) by (simp add: user_exists_def)
  have s3: "notification_create ?n ?d2 = Inr ?d3"
    using pub2 by (simp add: notification_create_def publisher_notification_def)
  from pub obtain publisher
    where pf: "find (\<lambda>u. usr_id u = inc_publisherId incident) (users d) = Some publisher"
    by (auto simp: user_exists_def)
  have pub3: "find (\<lambda>u. usr_id u = inc_publisherId incident) (users ?d3) = Some publisher"
    using pf f1(1) by simp
  have rng: "(status = ''VERIFIED'' \<longrightarrow> int32 (usr_credibilityScore publisher + 2)) \<and>
             (status = ''REJECTED'' \<longrightarrow> int32 (usr_credibilityScore publisher - 1))"
  proof (rule ccontr)
    assume "\<not> ?thesis"
    then have "(status = ''VERIFIED'' \<and> \<not> int32 (usr_credibilityScore publisher + 2)) \<or>
              (status = ''REJECTED'' \<and> \<not> int32 (usr_credibilityScore publisher - 1))"
      by blast
    from update_credibility_out_of_range[OF pub3 this]
    have "update_credibility status incident ?d3 = Inl (PrismaError ''P2020'')" .
    with st inc rs s2 s3 have "put_incident_status m req iid status note now d = (Inl (PrismaError ''P2020''), ?d3)"
      by (simp add: put_incident_status_def del: set_simps)
    with acc show False by simp
  qed
  let ?d4 = "?d3\<lparr>users := map (\<lambda>u. if usr_id u = inc_publisherId incident
                          then u\<lparr>usr_credibilityScore := usr_credibilityScore u +
                                 (if status = ''VERIFIED'' then 2 else if status = ''REJECTED'' then - 1 else 0)\<rparr>
                          else u) (users ?d3)\<rparr>"
  have s4: "update_credibility status incident ?d3 = Inr ?d4"
    using update_credibility_ok[OF pub3] rng by simp
  have modq: "find (\<lambda>u. usr_id u = req_userId req) (users ?d4) = None
          \<longleftrightarrow> find (\<lambda>u. usr_id u = req_userId req) (users d) = None"
    using find_map_other[where f="\<lambda>u. u\<lparr>usr_credibilityScore := usr_credibilityScore u +
                                 (if status = ''VERIFIED'' then 2 else if status = ''REJECTED'' then - 1 else 0)\<rparr>"
        and key=usr_id and k="req_userId req" and P="\<lambda>u. usr_id u = inc_publisherId incident"
        and xs="users d"] f1(1)
    by simp
  have mod: "user_exists d (req_userId req)"
  proof (rule ccontr)
    assume no: "\<not> ?thesis"
    then have "\<not> user_exists ?d4 (req_userId req)"
      using modq by (simp add: user_exists_def)
    then have "auditLog_create ?a ?d4 = Inl (PrismaError ''P2003'')"
      by (simp add: auditLog_create_def audit_entry_def)
    with st inc rs s2 s3 s4 have "put_incident_status m req iid status note now d = (Inl (PrismaError ''P2003''), ?d4)"
      by (simp add: put_incident_status_def del: set_simps)
    with acc show False by simp
  qed
  from st inc pf rng mod show ?thesis by blast
qed

text \<open>The handler has no answer with status code 409.\<close>

lemma put_incident_status_never_conflict:
  "fst (put_incident_status m req iid status note now d) \<noteq> Inl (AppError msg 409)"
proof (cases "fst (put_incident_status m req iid status note now d)")
  case (Inr u)
  then show ?thesis by simp
next
  case (Inl e)
  show ?thesis
  proof (cases "status \<in> set [''VERIFIED'', ''REJECTED'', ''TAKEN_DOWN'']")
    case False
    then show ?thesis by (simp add: put_incident_status_def del: set_simps)
  next
    case True
    show ?thesis
    proof (cases "incident_findUnique iid d")
      case None
      with True show ?thesis by (simp add: put_incident_status_def del: set_simps)
    next
      case (Some incident)
      with True show ?thesis
        by (auto simp: put_incident_status_def incident_update_def notification_create_def
            update_credibility_def user_update_def auditLog_create_def
            simp del: set_simps split: prod.splits sum.splits option.splits if_splits)
    qed
  qed
qed

text \<open>The definitions a concrete run of the handlers unfolds.\<close>

lemmas handler_defs =
  put_incident_status_def resolve_station_def findNearestPoliceStation_def notifyPoliceStation_def
  incident_findUnique_def incident_update_def notification_create_def publisher_notification_def
  update_credibility_def user_update_def auditLog_create_def audit_entry_def user_exists_def
  set_column_def column_value_def or_default_def truthy_def int32_def


text \<open>
  The single-report fetch keeps the visibility rule: a report that is not VERIFIED is
  returned only to its publisher or to an administrator or moderator.
\<close>

lemma get_incident_visibility:
  assumes "get_incident viewer iid d = (Inr i, d')" "inc_status i \<noteq> ''VERIFIED''"
  shows "\<exists>u. viewer = Some u \<and>
           (req_userId u = inc_publisherId i \<or> req_role u = ''ADMIN'' \<or> req_role u = ''MODERATOR'')"
  using assms
  by (auto simp: get_incident_def incident_update_def split: option.splits if_splits sum.splits)

text \<open>
  Claim C4. A moderation decision whose requested status is none of VERIFIED, REJECTED and
  TAKEN_DOWN fails with the error "Invalid status" (HTTP 400), and the store it returns is the
  store it was given: no report is changed, and no notification, score change or audit entry
  is made.
\<close>

theorem put_incident_status_invalid_status:
  assumes "status \<notin> {''VERIFIED'', ''REJECTED'', ''TAKEN_DOWN''}"
  shows "put_incident_status m req iid status note now d = (Inl (AppError ''Invalid status'' 400), d)"
  using assms by (simp add: put_incident_status_def)

text \<open>At a concrete input: the status DRAFT is requested for a submitted report.\<close>

theorem put_incident_status_invalid_status_witness:
  "(let d0 = \<lparr>users = [\<lparr>usr_id = ''u1'', usr_role = ''CITIZEN'', usr_isActive = True,
                          usr_credibilityScore = 50, usr_policeStationId = None\<rparr>,
                         \<lparr>usr_id = ''m1'', usr_role = ''MODERATOR'', usr_isActive = True,
                          usr_credibilityScore = 50, usr_policeStationId = None\<rparr>],
               incidents = [\<lparr>inc_id = ''i1'', inc_title = ''Pothole'', inc_description = ''Large pothole'',
                              inc_category = ''INFRASTRUCTURE'', inc_latitude = 0, inc_longitude = 0,
                              inc_address = None, inc_city = None, inc_state = None, inc_pincode = None,
                              inc_policeStationId = None, inc_status = ''SUBMITTED'',
                              inc_verificationNote = None, inc_verifiedAt = None, inc_verifiedBy = None,
                              inc_publisherId = ''u1'', inc_publisherBadge = ''CITIZEN'',
                              inc_viewCount = 0, inc_shareCount = 0, inc_incidentTime = 10,
                              inc_createdAt = 10\<rparr>],
               policeStations = [], notifications = [], auditLogs = [], reports = [],
               dailyPostTrackers = [], incidentMedias = []\<rparr>
    in ''DRAFT'' \<notin> {''VERIFIED'', ''REJECTED'', ''TAKEN_DOWN''} \<and>
       put_incident_status real_arith
         \<lparr>req_userId = ''m1'', req_role = ''MODERATOR'', req_ip = None, req_userAgent = None\<rparr>
         ''i1'' ''DRAFT'' Undefined 1000 d0 = (Inl (AppError ''Invalid status'' 400), d0))"
  using put_incident_status_invalid_status[of "''DRAFT''"]
  by (simp add: Let_def)


text \<open>
  Claim C1 as stated fails: the handler compares the report's current status with nothing.
  A report that is REJECTED is moved to VERIFIED by a decision that asks for it; the
  decision is accepted, the status and the moderation fields are overwritten, the publisher
  gains 2 points and an audit entry is written.
\<close>

theorem put_incident_status_from_rejected_counterexample:
  "(let d0 = \<lparr>users = [\<lparr>usr_id = ''u1'', usr_role = ''CITIZEN'', usr_isActive = True,
                          usr_credibilityScore = 50, usr_policeStationId = None\<rparr>,
                         \<lparr>usr_id = ''m1'', usr_role = ''MODERATOR'', usr_isActive = True,
                          usr_credibilityScore = 50, usr_policeStationId = None\<rparr>],
               incidents = [\<lparr>inc_id = ''i1'', inc_title = ''Pothole'', inc_description = ''Large pothole'',
                              inc_category = ''INFRASTRUCTURE'', inc_latitude = 0, inc_longitude = 0,
                              inc_address = None, inc_city = None, inc_state = None, inc_pincode = None,
                              inc_policeStationId = None, inc_status = ''REJECTED'',
                              inc_verificationNote = Some ''duplicate'', inc_verifiedAt = Some 500,
                              inc_verifiedBy = Some ''m0'',
                              inc_publisherId = ''u1'', inc_publisherBadge = ''CITIZEN'',
                              inc_viewCount = 0, inc_shareCount = 0, inc_incidentTime = 10,
                              inc_createdAt = 10\<rparr>],
               policeStations = [], notifications = [], auditLogs = [], reports = [],
               dailyPostTrackers = [], incidentMedias = []\<rparr>;
        r = put_incident_status real_arith
              \<lparr>req_userId = ''m1'', req_role = ''MODERATOR'', req_ip = None, req_userAgent = None\<rparr>
              ''i1'' ''VERIFIED'' (Str ''ok'') 1000 d0
    in \<not> isl (fst r) \<and>
       map inc_status (incidents (snd r)) = [''VERIFIED''] \<and>
       map inc_verifiedBy (incidents (snd r)) = [Some ''m1''] \<and>
       map inc_verifiedAt (incidents (snd r)) = [Some 1000] \<and>
       map inc_verificationNote (incidents (snd r)) = [Some ''ok''] \<and>
       map usr_credibilityScore (users (snd r)) = [52, 50] \<and>
       map aud_action (auditLogs (snd r)) = [''VERIFY_INCIDENT''])"
  by (simp add: Let_def handler_defs)

text \<open>
  Claim C1, amended. For every moderation decision whose requested status is VERIFIED,
  REJECTED or TAKEN_DOWN, on a report that exists (its publisher and the moderator being
  rows of the user table, as the foreign keys and \<open>authenticate\<close> ensure), the report's
  current status is not consulted and the stored report gets the requested status, the
  moderator as \<open>verifiedBy\<close> and the time of the decision as \<open>verifiedAt\<close>, whatever
  its status was. When the publisher's score stays in the range of its 32-bit column (after
  + 2 for VERIFIED, - 1 for REJECTED) the decision is accepted and the returned report is
  the stored one, with the note of the request when it carries one. When the score would
  leave that range the answer is the store's out-of-range error, with the status, the
  moderation fields and the publisher's notification already written and neither the score
  nor an audit entry. No outcome of the handler is a conflict (HTTP 409).
\<close>

theorem put_incident_status_accepts_any_current_status:
  assumes "status \<in> {''VERIFIED'', ''REJECTED'', ''TAKEN_DOWN''}"
    and "incident_findUnique iid d = Some incident"
    and "find (\<lambda>u. usr_id u = inc_publisherId incident) (users d) = Some publisher"
    and "user_exists d (req_userId req)"
  shows "(if (status = ''VERIFIED'' \<and> \<not> int32 (usr_credibilityScore publisher + 2)) \<or>
             (status = ''REJECTED'' \<and> \<not> int32 (usr_credibilityScore publisher - 1))
          then (\<exists>d'. put_incident_status m req iid status note now d = (Inl (PrismaError ''P2020''), d') \<and>
                  map_option inc_status (incident_findUnique iid d') = Some status \<and>
                  map_option inc_verifiedBy (incident_findUnique iid d') = Some (Some (req_userId req)) \<and>
                  users d' = users d \<and>
                  auditLogs d' = auditLogs d \<and>
                  (\<exists>ms. notifications d' =
                     notifications d @ ms @ [publisher_notification status note incident]))
          else (\<exists>updated d'. put_incident_status m req iid status note now d = (Inr updated, d') \<and>
                  inc_status updated = status \<and>
                  inc_verifiedBy updated = Some (req_userId req) \<and>
                  inc_verifiedAt updated = Some now \<and>
                  inc_verificationNote updated = set_column note (inc_verificationNote incident) \<and>
                  incident_findUnique iid d' = Some updated)) \<and>
         (\<forall>msg. fst (put_incident_status m req iid status note now d) \<noteq> Inl (AppError msg 409))"
proof -
  from assms(1) have st: "status \<in> set [''VERIFIED'', ''REJECTED'', ''TAKEN_DOWN'']" by simp
  have nc: "\<forall>msg. fst (put_incident_status m req iid status note now d) \<noteq> Inl (AppError msg 409)"
    using put_incident_status_never_conflict by blast
  show ?thesis
  proof (cases "(status = ''VERIFIED'' \<and> \<not> int32 (usr_credibilityScore publisher + 2)) \<or>
             (status = ''REJECTED'' \<and> \<not> int32 (usr_credibilityScore publisher - 1))")
    case True
    from put_incident_status_out_of_range[OF st assms(2) assms(3) True, of m req "note" now]
    show ?thesis using True nc by (simp only: if_True simp_thms)
  next
    case False
    then have v: "status = ''VERIFIED'' \<longrightarrow> int32 (usr_credibilityScore publisher + 2)"
      and r: "status = ''REJECTED'' \<longrightarrow> int32 (usr_credibilityScore publisher - 1)"
      by blast+
    from put_incident_status_accepted[OF st assms(2) assms(3) v r assms(4), of m "note" now]
    have "\<exists>updated d'. put_incident_status m req iid status note now d = (Inr updated, d') \<and>
           inc_status updated = status \<and>
           inc_verifiedBy updated = Some (req_userId req) \<and>
           inc_verifiedAt updated = Some now \<and>
           inc_verificationNote updated = set_column note (inc_verificationNote incident) \<and>
           incident_findUnique iid d' = Some updated"
      by blast
    then show ?thesis using False nc by (simp only: if_False simp_thms)
  qed
qed

text \<open>
  At concrete inputs: a report that was taken down is rejected by a second decision; and the
  same report is verified when its publisher's score is 2147483646, which is answered by the
  store's error with the report stored as VERIFIED and the score as it was.
\<close>

theorem put_incident_status_accepts_any_current_status_witness:
  "(let d0 = \<lparr>users = [\<lparr>usr_id = ''u1'', usr_role = ''CITIZEN'', usr_isActive = True,
                          usr_credibilityScore = 50, usr_policeStationId = None\<rparr>,
                         \<lparr>usr_id = ''m1'', usr_role = ''MODERATOR'', usr_isActive = True,
                          usr_credibilityScore = 50, usr_policeStationId = None\<rparr>],
               incidents = [\<lparr>inc_id = ''i1'', inc_title = ''Pothole'', inc_description = ''Large pothole'',
                              inc_category = ''INFRASTRUCTURE'', inc_latitude = 0, inc_longitude = 0,
                              inc_address = None, inc_city = None, inc_state = None, inc_pincode = None,
                              inc_policeStationId = None, inc_status = ''TAKEN_DOWN'',
                              inc_verificationNote = Some ''spam'', inc_verifiedAt = Some 500,
                              inc_verifiedBy = Some ''m0'',
                              inc_publisherId = ''u1'', inc_publisherBadge = ''CITIZEN'',
                              inc_viewCount = 0, inc_shareCount = 0, inc_incidentTime = 10,
                              inc_createdAt = 10\<rparr>],
               policeStations = [], notifications = [], auditLogs = [], reports = [],
               dailyPostTrackers = [], incidentMedias = []\<rparr>;
        req = \<lparr>req_userId = ''m1'', req_role = ''MODERATOR'', req_ip = None, req_userAgent = None\<rparr>
    in map_option usr_credibilityScore (find (\<lambda>u. usr_id u = ''u1'') (users d0)) = Some 50 \<and>
       user_exists d0 ''m1'' \<and>
       map_option inc_status (incident_findUnique ''i1'' d0) = Some ''TAKEN_DOWN'' \<and>
       (\<exists>updated d'. put_incident_status real_arith req ''i1'' ''REJECTED'' Undefined 1000 d0 = (Inr updated, d') \<and>
          inc_status updated = ''REJECTED'' \<and>
          inc_verifiedBy updated = Some ''m1'' \<and>
          inc_verifiedAt updated = Some 1000 \<and>
          inc_verificationNote updated = Some ''spam'' \<and>
          incident_findUnique ''i1'' d' = Some updated)) \<and>
   (let d0 = \<lparr>users = [\<lparr>usr_id = ''u1'', usr_role = ''CITIZEN'', usr_isActive = True,
                          usr_credibilityScore = 2147483646, usr_policeStationId = None\<rparr>,
                         \<lparr>usr_id = ''m1'', usr_role = ''MODERATOR'', usr_isActive = True,
                          usr_credibilityScore = 50, usr_policeStationId = None\<rparr>],
               incidents = [\<lparr>inc_id = ''i1'', inc_title = ''Pothole'', inc_description = ''Large pothole'',
                              inc_category = ''INFRASTRUCTURE'', inc_latitude = 0, inc_longitude = 0,
                              inc_address = None, inc_city = None, inc_state = None, inc_pincode = None,
                              inc_policeStationId = None, inc_status = ''TAKEN_DOWN'',
                              inc_verificationNote = Some ''spam'', inc_verifiedAt = Some 500,
                              inc_verifiedBy = Some ''m0'',
                              inc_publisherId = ''u1'', inc_publisherBadge = ''CITIZEN'',
                              inc_viewCount = 0, inc_shareCount = 0, inc_incidentTime = 10,
                              inc_createdAt = 10\<rparr>],
               policeStations = [], notifications = [], auditLogs = [], reports = [],
               dailyPostTrackers = [], incidentMedias = []\<rparr>;
        req = \<lparr>req_userId = ''m1'', req_role = ''MODERATOR'', req_ip = None, req_userAgent = None\<rparr>;
        r = put_incident_status real_arith req ''i1'' ''VERIFIED'' Undefined 1000 d0
    in fst r = Inl (PrismaError ''P2020'') \<and>
       map inc_status (incidents (snd r)) = [''VERIFIED''] \<and>
       map inc_verifiedBy (incidents (snd r)) = [Some ''m1''] \<and>
       map usr_credibilityScore (users (snd r)) = [2147483646, 50] \<and>
       length (notifications (snd r)) = 1 \<and>
       auditLogs (snd r) = [])"
proof -
  let ?i = "\<lparr>inc_id = ''i1'', inc_title = ''Pothole'', inc_description = ''Large pothole'',
                              inc_category = ''INFRASTRUCTURE'', inc_latitude = 0, inc_longitude = 0,
                              inc_address = None, inc_city = None, inc_state = None, inc_pincode = None,
                              inc_policeStationId = None, inc_status = ''TAKEN_DOWN'',
                              inc_verificationNote = Some ''spam'', inc_verifiedAt = Some 500,
                              inc_verifiedBy = Some ''m0'',
                              inc_publisherId = ''u1'', inc_publisherBadge = ''CITIZEN'',
                              inc_viewCount = 0, inc_shareCount = 0, inc_incidentTime = 10,
                              inc_createdAt = 10\<rparr>"
  let ?u = "\<lparr>usr_id = ''u1'', usr_role = ''CITIZEN'', usr_isActive = True,
                          usr_credibilityScore = 50, usr_policeStationId = None\<rparr>"
  let ?d0 = "\<lparr>users = [\<lparr>usr_id = ''u1'', usr_role = ''CITIZEN'', usr_isActive = True,
                          usr_credibilityScore = 50, usr_policeStationId = None\<rparr>,
                         \<lparr>usr_id = ''m1'', usr_role = ''MODERATOR'', usr_isActive = True,
                          usr_credibilityScore = 50, usr_policeStationId = None\<rparr>],
               incidents = [?i],
               policeStations = [], notifications = [], auditLogs = [], reports = [],
               dailyPostTrackers = [], incidentMedias = []\<rparr>"
  let ?d1 = "\<lparr>users = [\<lparr>usr_id = ''u1'', usr_role = ''CITIZEN'', usr_isActive = True,
                          usr_credibilityScore = 2147483646, usr_policeStationId = None\<rparr>,
                         \<lparr>usr_id = ''m1'', usr_role = ''MODERATOR'', usr_isActive = True,
                          usr_credibilityScore = 50, usr_policeStationId = None\<rparr>],
               incidents = [?i],
               policeStations = [], notifications = [], auditLogs = [], reports = [],
               dailyPostTrackers = [], incidentMedias = []\<rparr>"
  let ?req = "\<lparr>req_userId = ''m1'', req_role = ''MODERATOR'', req_ip = None, req_userAgent = None\<rparr>"
  have h1: "''REJECTED'' \<in> {''VERIFIED'', ''REJECTED'', ''TAKEN_DOWN''}" by simp
  have h2: "incident_findUnique ''i1'' ?d0 = Some ?i" by (simp add: incident_findUnique_def)
  have h3: "find (\<lambda>u. usr_id u = inc_publisherId ?i) (users ?d0) = Some ?u" by simp
  have h4: "user_exists ?d0 (req_userId ?req)" by (simp add: user_exists_def)
  from put_incident_status_accepts_any_current_status[OF h1 h2 h3 h4, of real_arith Undefined 1000]
  have "\<exists>updated d'. put_incident_status real_arith ?req ''i1'' ''REJECTED'' Undefined 1000 ?d0 = (Inr updated, d') \<and>
          inc_status updated = ''REJECTED'' \<and>
          inc_verifiedBy updated = Some ''m1'' \<and>
          inc_verifiedAt updated = Some 1000 \<and>
          inc_verificationNote updated = Some ''spam'' \<and>
          incident_findUnique ''i1'' d' = Some updated"
    by (simp add: set_column_def int32_def)
  with h2 h4 have first: "(let d0 = ?d0; req = ?req
    in map_option usr_credibilityScore (find (\<lambda>u. usr_id u = ''u1'') (users d0)) = Some 50 \<and>
       user_exists d0 ''m1'' \<and>
       map_option inc_status (incident_findUnique ''i1'' d0) = Some ''TAKEN_DOWN'' \<and>
       (\<exists>updated d'. put_incident_status real_arith req ''i1'' ''REJECTED'' Undefined 1000 d0 = (Inr updated, d') \<and>
          inc_status updated = ''REJECTED'' \<and>
          inc_verifiedBy updated = Some ''m1'' \<and>
          inc_verifiedAt updated = Some 1000 \<and>
          inc_verificationNote updated = Some ''spam'' \<and>
          incident_findUnique ''i1'' d' = Some updated))"
    by (simp add: Let_def)
  have second: "(let d0 = ?d1; req = ?req;
        r = put_incident_status real_arith req ''i1'' ''VERIFIED'' Undefined 1000 d0
    in fst r = Inl (PrismaError ''P2020'') \<and>
       map inc_status (incidents (snd r)) = [''VERIFIED''] \<and>
       map inc_verifiedBy (incidents (snd r)) = [Some ''m1''] \<and>
       map usr_credibilityScore (users (snd r)) = [2147483646, 50] \<and>
       length (notifications (snd r)) = 1 \<and>
       auditLogs (snd r) = [])"
    by (simp add: Let_def handler_defs)
  from first second show ?thesis by (intro conjI)
qed

text \<open>
  Claim C5. Whenever a moderation decision is accepted, the trust score of the report's
  publisher after it is the score before it plus 2 when the decision is VERIFIED, minus 1
  when it is REJECTED, and the same when it is TAKEN_DOWN; the takedown cascaded from the
  review of a complaint changes no score either. The score is a signed integer and the
  subtraction has no floor at 0: for a publisher with score 1, two rejections in a row leave
  the score at -1.
\<close>

theorem put_incident_status_credibility:
  "(put_incident_status m req iid status note now d = (Inr updated, d') \<and>
    incident_findUnique iid d = Some incident \<and>
    find (\<lambda>u. usr_id u = inc_publisherId incident) (users d) = Some publisher \<longrightarrow>
      (\<exists>publisher'. find (\<lambda>u. usr_id u = inc_publisherId incident) (users d') = Some publisher' \<and>
         (status = ''VERIFIED'' \<longrightarrow>
            usr_credibilityScore publisher' = usr_credibilityScore publisher + 2) \<and>
         (status = ''REJECTED'' \<longrightarrow>
            usr_credibilityScore publisher' = usr_credibilityScore publisher - 1) \<and>
         (status = ''TAKEN_DOWN'' \<longrightarrow>
            usr_credibilityScore publisher' = usr_credibilityScore publisher))) \<and>
   users (snd (put_report req rid rstatus reviewNote takeDownIncident now1 now2 d)) = users d \<and>
   (let d0 = \<lparr>users = [\<lparr>usr_id = ''u1'', usr_role = ''CITIZEN'', usr_isActive = True,
                          usr_credibilityScore = 1, usr_policeStationId = None\<rparr>,
                         \<lparr>usr_id = ''m1'', usr_role = ''MODERATOR'', usr_isActive = True,
                          usr_credibilityScore = 50, usr_policeStationId = None\<rparr>],
               incidents = [\<lparr>inc_id = ''i1'', inc_title = ''Pothole'', inc_description = ''Large pothole'',
                              inc_category = ''INFRASTRUCTURE'', inc_latitude = 0, inc_longitude = 0,
                              inc_address = None, inc_city = None, inc_state = None, inc_pincode = None,
                              inc_policeStationId = None, inc_status = ''SUBMITTED'',
                              inc_verificationNote = None, inc_verifiedAt = None, inc_verifiedBy = None,
                              inc_publisherId = ''u1'', inc_publisherBadge = ''CITIZEN'',
                              inc_viewCount = 0, inc_shareCount = 0, inc_incidentTime = 10,
                              inc_createdAt = 10\<rparr>,
                            \<lparr>inc_id = ''i2'', inc_title = ''Street light'', inc_description = ''Lamp is out'',
                              inc_category = ''CIVIC_ISSUE'', inc_latitude = 0, inc_longitude = 0,
                              inc_address = None, inc_city = None, inc_state = None, inc_pincode = None,
                              inc_policeStationId = None, inc_status = ''SUBMITTED'',
                              inc_verificationNote = None, inc_verifiedAt = None, inc_verifiedBy = None,
                              inc_publisherId = ''u1'', inc_publisherBadge = ''CITIZEN'',
                              inc_viewCount = 0, inc_shareCount = 0, inc_incidentTime = 20,
                              inc_createdAt = 20\<rparr>],
               policeStations = [], notifications = [], auditLogs = [], reports = [],
               dailyPostTrackers = [], incidentMedias = []\<rparr>;
        req = \<lparr>req_userId = ''m1'', req_role = ''MODERATOR'', req_ip = None, req_userAgent = None\<rparr>;
        r1 = put_incident_status real_arith req ''i1'' ''REJECTED'' Undefined 1000 d0;
        r2 = put_incident_status real_arith req ''i2'' ''REJECTED'' Undefined 2000 (snd r1)
    in \<not> isl (fst r1) \<and> \<not> isl (fst r2) \<and>
       map usr_credibilityScore (users (snd r1)) = [0, 50] \<and>
       map usr_credibilityScore (users (snd r2)) = [- 1, 50])"
proof -
  have general: "\<exists>publisher'. find (\<lambda>u. usr_id u = inc_publisherId incident) (users d') = Some publisher' \<and>
         (status = ''VERIFIED'' \<longrightarrow>
            usr_credibilityScore publisher' = usr_credibilityScore publisher + 2) \<and>
         (status = ''REJECTED'' \<longrightarrow>
            usr_credibilityScore publisher' = usr_credibilityScore publisher - 1) \<and>
         (status = ''TAKEN_DOWN'' \<longrightarrow>
            usr_credibilityScore publisher' = usr_credibilityScore publisher)"
    if acc: "put_incident_status m req iid status note now d = (Inr updated, d')"
      and inc: "incident_findUnique iid d = Some incident"
      and pub: "find (\<lambda>u. usr_id u = inc_publisherId incident) (users d) = Some publisher"
  proof -
    from put_incident_status_Inr_D[OF acc] inc pub
    have st: "status \<in> set [''VERIFIED'', ''REJECTED'', ''TAKEN_DOWN'']"
      and v: "status = ''VERIFIED'' \<longrightarrow> int32 (usr_credibilityScore publisher + 2)"
      and r: "status = ''REJECTED'' \<longrightarrow> int32 (usr_credibilityScore publisher - 1)"
      and ex: "user_exists d (req_userId req)"
      by auto
    from put_incident_status_accepted[OF st inc pub v r ex, of m "note" now] acc
    have us: "users d' = map (\<lambda>u. if usr_id u = inc_publisherId incident
                          then u\<lparr>usr_credibilityScore := usr_credibilityScore u +
                                 (if status = ''VERIFIED'' then 2 else if status = ''REJECTED'' then - 1 else 0)\<rparr>
                          else u) (users d)"
      by auto
    let ?p = "publisher\<lparr>usr_credibilityScore := usr_credibilityScore publisher +
                (if status = ''VERIFIED'' then 2 else if status = ''REJECTED'' then - 1 else 0)\<rparr>"
    have "find (\<lambda>u. usr_id u = inc_publisherId incident) (users d') = Some ?p"
      unfolding us
      using find_map_update[where key=usr_id and k="inc_publisherId incident" and xs="users d"
          and r=publisher
          and f="\<lambda>u. u\<lparr>usr_credibilityScore := usr_credibilityScore u +
                  (if status = ''VERIFIED'' then 2 else if status = ''REJECTED'' then - 1 else 0)\<rparr>"] pub
      by simp
    then show ?thesis by simp
  qed
  have run: "(let d0 = \<lparr>users = [\<lparr>usr_id = ''u1'', usr_role = ''CITIZEN'', usr_isActive = True,
                          usr_credibilityScore = 1, usr_policeStationId = None\<rparr>,
                         \<lparr>usr_id = ''m1'', usr_role = ''MODERATOR'', usr_isActive = True,
                          usr_credibilityScore = 50, usr_policeStationId = None\<rparr>],
               incidents = [\<lparr>inc_id = ''i1'', inc_title = ''Pothole'', inc_description = ''Large pothole'',
                              inc_category = ''INFRASTRUCTURE'', inc_latitude = 0, inc_longitude = 0,
                              inc_address = None, inc_city = None, inc_state = None, inc_pincode = None,
                              inc_policeStationId = None, inc_status = ''SUBMITTED'',
                              inc_verificationNote = None, inc_verifiedAt = None, inc_verifiedBy = None,
                              inc_publisherId = ''u1'', inc_publisherBadge = ''CITIZEN'',
                              inc_viewCount = 0, inc_shareCount = 0, inc_incidentTime = 10,
                              inc_createdAt = 10\<rparr>,
                            \<lparr>inc_id = ''i2'', inc_title = ''Street light'', inc_description = ''Lamp is out'',
                              inc_category = ''CIVIC_ISSUE'', inc_latitude = 0, inc_longitude = 0,
                              inc_address = None, inc_city = None, inc_state = None, inc_pincode = None,
                              inc_policeStationId = None, inc_status = ''SUBMITTED'',
                              inc_verificationNote = None, inc_verifiedAt = None, inc_verifiedBy = None,
                              inc_publisherId = ''u1'', inc_publisherBadge = ''CITIZEN'',
                              inc_viewCount = 0, inc_shareCount = 0, inc_incidentTime = 20,
                              inc_createdAt = 20\<rparr>],
               policeStations = [], notifications = [], auditLogs = [], reports = [],
               dailyPostTrackers = [], incidentMedias = []\<rparr>;
        req = \<lparr>req_userId = ''m1'', req_role = ''MODERATOR'', req_ip = None, req_userAgent = None\<rparr>;
        r1 = put_incident_status real_arith req ''i1'' ''REJECTED'' Undefined 1000 d0;
        r2 = put_incident_status real_arith req ''i2'' ''REJECTED'' Undefined 2000 (snd r1)
    in \<not> isl (fst r1) \<and> \<not> isl (fst r2) \<and>
       map usr_credibilityScore (users (snd r1)) = [0, 50] \<and>
       map usr_credibilityScore (users (snd r2)) = [- 1, 50])"
    by (simp add: Let_def handler_defs)
  have cascade: "users (snd (put_report req rid rstatus reviewNote takeDownIncident now1 now2 d)) = users d"
    by (auto simp: put_report_def report_update_def incident_update_def notification_create_def
        simp del: set_simps split: option.splits sum.splits prod.splits if_splits)
  from general cascade run show ?thesis by blast
qed

text \<open>
  At a concrete input: a submitted report of a publisher with score 50 is verified, and the
  publisher's score is 52 afterwards.
\<close>

theorem put_incident_status_credibility_witness:
  "(let d0 = \<lparr>users = [\<lparr>usr_id = ''u1'', usr_role = ''CITIZEN'', usr_isActive = True,
                          usr_credibilityScore = 50, usr_policeStationId = None\<rparr>,
                         \<lparr>usr_id = ''m1'', usr_role = ''MODERATOR'', usr_isActive = True,
                          usr_credibilityScore = 50, usr_policeStationId = None\<rparr>],
               incidents = [\<lparr>inc_id = ''i1'', inc_title = ''Pothole'', inc_description = ''Large pothole'',
                              inc_category = ''INFRASTRUCTURE'', inc_latitude = 0, inc_longitude = 0,
                              inc_address = None, inc_city = None, inc_state = None, inc_pincode = None,
                              inc_policeStationId = None, inc_status = ''SUBMITTED'',
                              inc_verificationNote = None, inc_verifiedAt = None, inc_verifiedBy = None,
                              inc_publisherId = ''u1'', inc_publisherBadge = ''CITIZEN'',
                              inc_viewCount = 0, inc_shareCount = 0, inc_incidentTime = 10,
                              inc_createdAt = 10\<rparr>],
               policeStations = [], notifications = [], auditLogs = [], reports = [],
               dailyPostTrackers = [], incidentMedias = []\<rparr>;
        r = put_incident_status real_arith
              \<lparr>req_userId = ''m1'', req_role = ''MODERATOR'', req_ip = None, req_userAgent = None\<rparr>
              ''i1'' ''VERIFIED'' Undefined 1000 d0
    in \<not> isl (fst r) \<and>
       map_option usr_credibilityScore (find (\<lambda>u. usr_id u = ''u1'') (users d0)) = Some 50 \<and>
       map_option usr_credibilityScore (find (\<lambda>u. usr_id u = ''u1'') (users (snd r))) = Some 52)"
proof -
  let ?i = "\<lparr>inc_id = ''i1'', inc_title = ''Pothole'', inc_description = ''Large pothole'',
                              inc_category = ''INFRASTRUCTURE'', inc_latitude = 0, inc_longitude = 0,
                              inc_address = None, inc_city = None, inc_state = None, inc_pincode = None,
                              inc_policeStationId = None, inc_status = ''SUBMITTED'',
                              inc_verificationNote = None, inc_verifiedAt = None, inc_verifiedBy = None,
                              inc_publisherId = ''u1'', inc_publisherBadge = ''CITIZEN'',
                              inc_viewCount = 0, inc_shareCount = 0, inc_incidentTime = 10,
                              inc_createdAt = 10\<rparr>"
  let ?u = "\<lparr>usr_id = ''u1'', usr_role = ''CITIZEN'', usr_isActive = True,
                          usr_credibilityScore = 50, usr_policeStationId = None\<rparr>"
  let ?d0 = "\<lparr>users = [?u,
                         \<lparr>usr_id = ''m1'', usr_role = ''MODERATOR'', usr_isActive = True,
                          usr_credibilityScore = 50, usr_policeStationId = None\<rparr>],
               incidents = [?i],
               policeStations = [], notifications = [], auditLogs = [], reports = [],
               dailyPostTrackers = [], incidentMedias = []\<rparr>"
  let ?req = "\<lparr>req_userId = ''m1'', req_role = ''MODERATOR'', req_ip = None, req_userAgent = None\<rparr>"
  let ?r = "put_incident_status real_arith ?req ''i1'' ''VERIFIED'' Undefined 1000 ?d0"
  obtain updated d' where r: "?r = (Inr updated, d')"
    by (simp add: handler_defs)
  have h2: "incident_findUnique ''i1'' ?d0 = Some ?i" by (simp add: incident_findUnique_def)
  have h3: "find (\<lambda>u. usr_id u = inc_publisherId ?i) (users ?d0) = Some ?u" by simp
  from put_incident_status_credibility[of real_arith "?req" "''i1''" "''VERIFIED''" Undefined 1000 "?d0" updated d' "?i" "?u"]
    r h2 h3
  have "\<exists>publisher'. find (\<lambda>u. usr_id u = ''u1'') (users d') = Some publisher' \<and>
          usr_credibilityScore publisher' = 52"
    by simp
  then have "map_option usr_credibilityScore (find (\<lambda>u. usr_id u = ''u1'') (users (snd ?r))) = Some 52"
    using r by auto
  moreover have "\<not> isl (fst ?r)" using r by simp
  ultimately show ?thesis by (simp add: Let_def)
qed

text \<open>
  Claim C3 fails on the cascaded takedown. \<open>PUT /reports/:id\<close> never writes to the audit
  table, for any input; yet when asked to take the report down it moves the report to
  TAKEN_DOWN and notifies the publisher. The concrete run: a complaint against a verified
  report is reviewed with \<open>takeDownIncident\<close> set; the decision is accepted, the report
  is TAKEN_DOWN, one notification is written and the audit table stays empty. The direct
  decision with status TAKEN_DOWN on the same store writes the audit entry
  TAKEDOWN_INCIDENT.
\<close>

theorem put_report_takedown_without_audit_entry:
  "auditLogs (snd (put_report req rid status reviewNote takeDownIncident now1 now2 d)) = auditLogs d \<and>
   (let d0 = \<lparr>users = [\<lparr>usr_id = ''u1'', usr_role = ''CITIZEN'', usr_isActive = True,
                          usr_credibilityScore = 52, usr_policeStationId = None\<rparr>,
                         \<lparr>usr_id = ''u2'', usr_role = ''CITIZEN'', usr_isActive = True,
                          usr_credibilityScore = 50, usr_policeStationId = None\<rparr>,
                         \<lparr>usr_id = ''m1'', usr_role = ''MODERATOR'', usr_isActive = True,
                          usr_credibilityScore = 50, usr_policeStationId = None\<rparr>],
               incidents = [\<lparr>inc_id = ''i1'', inc_title = ''Pothole'', inc_description = ''Large pothole'',
                              inc_category = ''INFRASTRUCTURE'', inc_latitude = 0, inc_longitude = 0,
                              inc_address = None, inc_city = None, inc_state = None, inc_pincode = None,
                              inc_policeStationId = None, inc_status = ''VERIFIED'',
                              inc_verificationNote = None, inc_verifiedAt = Some 500,
                              inc_verifiedBy = Some ''m1'',
                              inc_publisherId = ''u1'', inc_publisherBadge = ''CITIZEN'',
                              inc_viewCount = 0, inc_shareCount = 0, inc_incidentTime = 10,
                              inc_createdAt = 10\<rparr>],
               policeStations = [], notifications = [], auditLogs = [],
               reports = [\<lparr>rep_id = ''r1'', rep_incidentId = ''i1'', rep_reporterId = ''u2'',
                            rep_reason = ''FAKE'', rep_status = ''PENDING'', rep_reviewedById = None,
                            rep_reviewNote = None, rep_reviewedAt = None\<rparr>],
               dailyPostTrackers = [], incidentMedias = []\<rparr>;
        req = \<lparr>req_userId = ''m1'', req_role = ''MODERATOR'', req_ip = None, req_userAgent = None\<rparr>;
        r = put_report req ''r1'' ''ACTION_TAKEN'' Undefined True 1000 1001 d0;
        direct = put_incident_status real_arith req ''i1'' ''TAKEN_DOWN'' Undefined 1000 d0
    in fst r = Inr () \<and>
       map inc_status (incidents (snd r)) = [''TAKEN_DOWN''] \<and>
       map ntf_userId (notifications (snd r)) = [''u1''] \<and>
       map ntf_type (notifications (snd r)) = [''INCIDENT_REPORTED''] \<and>
       auditLogs (snd r) = [] \<and>
       \<not> isl (fst direct) \<and>
       map inc_status (incidents (snd direct)) = [''TAKEN_DOWN''] \<and>
       map aud_action (auditLogs (snd direct)) = [''TAKEDOWN_INCIDENT''])"
proof -
  have frame: "auditLogs (snd (put_report req rid status reviewNote takeDownIncident now1 now2 d)) = auditLogs d"
    by (auto simp: put_report_def report_update_def incident_update_def notification_create_def
        simp del: set_simps split: option.splits sum.splits prod.splits if_splits)
  have run: "(let d0 = \<lparr>users = [\<lparr>usr_id = ''u1'', usr_role = ''CITIZEN'', usr_isActive = True,
                          usr_credibilityScore = 52, usr_policeStationId = None\<rparr>,
                         \<lparr>usr_id = ''u2'', usr_role = ''CITIZEN'', usr_isActive = True,
                          usr_credibilityScore = 50, usr_policeStationId = None\<rparr>,
                         \<lparr>usr_id = ''m1'', usr_role = ''MODERATOR'', usr_isActive = True,
                          usr_credibilityScore = 50, usr_policeStationId = None\<rparr>],
               incidents = [\<lparr>inc_id = ''i1'', inc_title = ''Pothole'', inc_description = ''Large pothole'',
                              inc_category = ''INFRASTRUCTURE'', inc_latitude = 0, inc_longitude = 0,
                              inc_address = None, inc_city = None, inc_state = None, inc_pincode = None,
                              inc_policeStationId = None, inc_status = ''VERIFIED'',
                              inc_verificationNote = None, inc_verifiedAt = Some 500,
                              inc_verifiedBy = Some ''m1'',
                              inc_publisherId = ''u1'', inc_publisherBadge = ''CITIZEN'',
                              inc_viewCount = 0, inc_shareCount = 0, inc_incidentTime = 10,
                              inc_createdAt = 10\<rparr>],
               policeStations = [], notifications = [], auditLogs = [],
               reports = [\<lparr>rep_id = ''r1'', rep_incidentId = ''i1'', rep_reporterId = ''u2'',
                            rep_reason = ''FAKE'', rep_status = ''PENDING'', rep_reviewedById = None,
                            rep_reviewNote = None, rep_reviewedAt = None\<rparr>],
               dailyPostTrackers = [], incidentMedias = []\<rparr>;
        req = \<lparr>req_userId = ''m1'', req_role = ''MODERATOR'', req_ip = None, req_userAgent = None\<rparr>;
        r = put_report req ''r1'' ''ACTION_TAKEN'' Undefined True 1000 1001 d0;
        direct = put_incident_status real_arith req ''i1'' ''TAKEN_DOWN'' Undefined 1000 d0
    in fst r = Inr () \<and>
       map inc_status (incidents (snd r)) = [''TAKEN_DOWN''] \<and>
       map ntf_userId (notifications (snd r)) = [''u1''] \<and>
       map ntf_type (notifications (snd r)) = [''INCIDENT_REPORTED''] \<and>
       auditLogs (snd r) = [] \<and>
       \<not> isl (fst direct) \<and>
       map inc_status (incidents (snd direct)) = [''TAKEN_DOWN''] \<and>
       map aud_action (auditLogs (snd direct)) = [''TAKEDOWN_INCIDENT''])"
    by (simp add: Let_def handler_defs put_report_def report_update_def)
  from frame run show ?thesis by (rule conjI)
qed

text \<open>
  Claim C2 fails on the feed. The store holds a SUBMITTED report and a VERIFIED one; an
  anonymous reader who sends \<open>status=SUBMITTED\<close> in the query gets the SUBMITTED report
  listed, although the single-report fetch answers the same reader "Incident not found" for
  it.
\<close>

theorem get_incidents_lists_unverified_to_anonymous:
  "(let d0 = \<lparr>users = [\<lparr>usr_id = ''u1'', usr_role = ''CITIZEN'', usr_isActive = True,
                          usr_credibilityScore = 50, usr_policeStationId = None\<rparr>],
               incidents = [\<lparr>inc_id = ''i1'', inc_title = ''Pothole'', inc_description = ''Large pothole'',
                              inc_category = ''INFRASTRUCTURE'', inc_latitude = 0, inc_longitude = 0,
                              inc_address = None, inc_city = None, inc_state = None, inc_pincode = None,
                              inc_policeStationId = None, inc_status = ''SUBMITTED'',
                              inc_verificationNote = None, inc_verifiedAt = None, inc_verifiedBy = None,
                              inc_publisherId = ''u1'', inc_publisherBadge = ''CITIZEN'',
                              inc_viewCount = 0, inc_shareCount = 0, inc_incidentTime = 10,
                              inc_createdAt = 10\<rparr>,
                            \<lparr>inc_id = ''i2'', inc_title = ''Street light'', inc_description = ''Lamp is out'',
                              inc_category = ''CIVIC_ISSUE'', inc_latitude = 0, inc_longitude = 0,
                              inc_address = None, inc_city = None, inc_state = None, inc_pincode = None,
                              inc_policeStationId = None, inc_status = ''VERIFIED'',
                              inc_verificationNote = None, inc_verifiedAt = Some 30, inc_verifiedBy = Some ''m1'',
                              inc_publisherId = ''u1'', inc_publisherBadge = ''CITIZEN'',
                              inc_viewCount = 0, inc_shareCount = 0, inc_incidentTime = 20,
                              inc_createdAt = 20\<rparr>],
               policeStations = [], notifications = [], auditLogs = [], reports = [],
               dailyPostTrackers = [], incidentMedias = []\<rparr>;
        r = get_incidents None
              \<lparr>q_page = None, q_limit = None, q_category = None, q_status = Some ''SUBMITTED'',
               q_city = None\<rparr> d0;
        plain = get_incidents None
              \<lparr>q_page = None, q_limit = None, q_category = None, q_status = None, q_city = None\<rparr> d0
    in map inc_id (fr_incidents r) = [''i1''] \<and>
       map inc_status (fr_incidents r) = [''SUBMITTED''] \<and>
       fr_total r = 1 \<and>
       map inc_id (fr_incidents plain) = [''i2''] \<and>
       get_incident None ''i1'' d0 = (Inl (AppError ''Incident not found'' 404), d0))"
  by (simp add: Let_def get_incidents_def feed_where_def truthy_def get_incident_def
      incident_findUnique_def)










end
